theory Spec2Isabelle
  imports Complex_Main
begin

section \<open>Strings\<close>

text \<open>
  JavaScript strings are modelled as \<^typ>\<open>string\<close>, lists of 8-bit characters read as the
  code units 0 to 255 (Latin-1). On these \<^verbatim>\<open>toLowerCase\<close> is exact: it moves A-Z and
  the letters 192 to 222 other than the multiplication sign 215 up by 32.
  \<^verbatim>\<open>toUpperCase\<close> moves a-z and the letters 224 to 254 other than the division sign
  247 down by 32; the upper-case forms of the code units 181, 223 and 255 lie outside
  Latin-1 and are not modelled, so what is proved through \<open>toUpperChar\<close> is stated for ASCII
  strings. White space is what \<^verbatim>\<open>\s\<close> and \<^verbatim>\<open>trim\<close> recognise below 256.
\<close>

definition toLowerChar :: "char \<Rightarrow> char" where
  "toLowerChar c =
     (let n = (of_char c :: nat)
      in if (65 \<le> n \<and> n \<le> 90) \<or> (192 \<le> n \<and> n \<le> 222 \<and> n \<noteq> 215)
         then char_of (n + 32) else c)"

definition toUpperChar :: "char \<Rightarrow> char" where
  "toUpperChar c =
     (let n = (of_char c :: nat)
      in if (97 \<le> n \<and> n \<le> 122) \<or> (224 \<le> n \<and> n \<le> 254 \<and> n \<noteq> 247)
         then char_of (n - 32) else c)"


definition toLowerCase :: "string \<Rightarrow> string" where
  "toLowerCase s = map toLowerChar s"


text \<open>\<^verbatim>\<open>s.startsWith(p)\<close> and \<^verbatim>\<open>s.includes(p)\<close>.\<close>

fun startsWith :: "string \<Rightarrow> string \<Rightarrow> bool" where
  "startsWith s [] = True"
| "startsWith [] (p # ps) = False"
| "startsWith (c # cs) (p # ps) = (c = p \<and> startsWith cs ps)"

fun includesStr :: "string \<Rightarrow> string \<Rightarrow> bool" where
  "includesStr [] p = (p = [])"
| "includesStr (c # cs) p = (startsWith (c # cs) p \<or> includesStr cs p)"

text \<open>\<^verbatim>\<open>xs.join(sep)\<close> on an array of strings.\<close>

fun join :: "string \<Rightarrow> string list \<Rightarrow> string" where
  "join sep [] = []"
| "join sep [x] = x"
| "join sep (x # y # ys) = x @ sep @ join sep (y # ys)"


definition isLineTerminator :: "char \<Rightarrow> bool" where
  "isLineTerminator c = (c = CHR 0x0A \<or> c = CHR 0x0D)"


section \<open>Vocabulary Registry\<close>

definition CUISINE_OPTIONS :: "string list" where
  "CUISINE_OPTIONS =
     [''African'', ''American'', ''Asian'', ''Brazilian'', ''Chinese'', ''Dessert'',
      ''French'', ''German'', ''Greek'', ''Hungarian'', ''Indian'', ''Italian'',
      ''Japanese'', ''Korean'', ''Mediterranean'', ''Mexican'', ''Middle Eastern'',
      ''Persian'', ''Peruvian'', ''Spanish'', ''Thai'', ''Vietnamese'']"

definition MEAL_OPTIONS :: "string list" where
  "MEAL_OPTIONS =
     [''Main Dish'', ''Side Dish'', ''Breakfast'', ''Dessert'', ''Snack'', ''Beverage'']"

definition TAG_OPTIONS :: "string list" where
  "TAG_OPTIONS =
     [''Appetizer'', ''Baked'', ''Braised'', ''Breakfast'', ''Chocolate'', ''Citrusy'',
      ''Condiment'', ''Creamy'', ''Curry'', ''Drink'', ''Eggs'', ''Fish'', ''Grilled'',
      ''Herby'', ''No Bake'', ''Pasta'', ''Pickled'', ''Refreshing'', ''Roasted'',
      ''Salad'', ''Sandwich'', ''Savory'', ''Seafood'', ''Soup'', ''Spicy'', ''Steamed'',
      ''Stew'', ''Stir-Fry'', ''Sweet'', ''Tangy'', ''Traditional'', ''Vegan'', ''Vegetarian'']"

definition INGREDIENT_OPTIONS :: "string list" where
  "INGREDIENT_OPTIONS =
     [''Beef'', ''Chicken'', ''Pork'', ''Fish'', ''Salmon'', ''Shrimp'', ''Eggs'', ''Cheese'',
      ''Pasta'', ''Rice'', ''Bread'', ''Potato'', ''Tomato'', ''Onions'', ''Garlic'',
      ''Spinach'', ''Broccoli'', ''Carrot'', ''Mushrooms'', ''Peppers'', ''Lemon'',
      ''Basil'', ''Herbs'', ''Ginger'', ''Chili'', ''Beans'', ''Cream'', ''Milk'']"

section \<open>Data model\<close>

text \<open>
  A recipe record as \<^verbatim>\<open>getIncompleteRecipes\<close> builds it. \<^verbatim>\<open>current_meal\<close> and
  \<^verbatim>\<open>current_cuisine\<close> are a string or \<^verbatim>\<open>undefined\<close> (\<open>None\<close>); the two
  multi-select fields are arrays, and the code also guards against their absence
  (\<^verbatim>\<open>recipe.current_tags?.length\<close>), so they are optional here too.
\<close>

record recipe =
  recipe_id :: string
  name :: string
  link :: string
  current_meal :: "string option"
  current_cuisine :: "string option"
  current_tags :: "string list option"
  current_ingredients :: "string list option"

text \<open>
  A Classification Result of the shape the prompt asks for: single-valued fields are a
  string or \<^verbatim>\<open>null\<close>, set-valued fields an array of strings or \<^verbatim>\<open>null\<close>.
  The confidence is a JavaScript number, modelled as a real.
\<close>

record analysis =
  standardized_title :: "string option"
  meal :: "string option"
  cuisine :: "string option"
  tags :: "string list option"
  key_ingredients :: "string list option"
  confidence :: real
  reasoning :: string

record image =
  image_url :: string
  alt :: string
  width :: "nat option"
  height :: "nat option"
  source :: string

record page_data =
  title :: "string option"
  ingredients :: "string list"
  instructions :: "string list"
  images :: "image list option"
  description :: "string option"

text \<open>
  JavaScript truthiness of an optional string: \<^verbatim>\<open>undefined\<close>, \<^verbatim>\<open>null\<close> and
  the empty string are falsy. An array is always truthy, so for an optional array the
  tests of the source are on its length.
\<close>

fun truthy :: "string option \<Rightarrow> bool" where
  "truthy None = False"
| "truthy (Some s) = (s \<noteq> [])"

text \<open>\<^verbatim>\<open>xs && xs.length > 0\<close> (also \<^verbatim>\<open>xs?.length > 0\<close>).\<close>

fun hasItems :: "string list option \<Rightarrow> bool" where
  "hasItems None = False"
| "hasItems (Some xs) = (xs \<noteq> [])"

text \<open>\<^verbatim>\<open>x || d\<close> for an optional string and for an optional array.\<close>

fun orElse :: "string option \<Rightarrow> string \<Rightarrow> string" where
  "orElse None d = d"
| "orElse (Some s) d = (if s \<noteq> [] then s else d)"

fun orElseList :: "string list option \<Rightarrow> string list \<Rightarrow> string list" where
  "orElseList None d = d"
| "orElseList (Some xs) d = xs"

section \<open>Suggested Change Set\<close>

datatype field_value = Text string | Items "string list"

record change =
  current :: field_value
  suggested :: field_value

type_synonym changes = "string \<rightharpoonup> change"

text \<open>
  \<^verbatim>\<open>formatSuggestedChanges(recipe, analysis, extractedData)\<close>: the object
  \<^verbatim>\<open>changes\<close> is a map from field name to a \<open>current\<close>/\<open>suggested\<close> pair, filled
  by the five guarded assignments of the source in their order.
\<close>

definition formatSuggestedChanges :: "recipe \<Rightarrow> analysis \<Rightarrow> page_data option \<Rightarrow> changes" where
  "formatSuggestedChanges recipe a extractedData =
     (let changes0 = Map.empty;
          changes1 =
            (if \<not> truthy (current_meal recipe) \<and> truthy (meal a)
             then changes0(''meal'' \<mapsto>
                    \<lparr>current = Text (orElse (current_meal recipe) ''Empty''),
                     suggested = Text (orElse (meal a) [])\<rparr>)
             else changes0);
          changes2 =
            (if \<not> truthy (current_cuisine recipe) \<and> truthy (cuisine a)
             then changes1(''cuisine'' \<mapsto>
                    \<lparr>current = Text (orElse (current_cuisine recipe) ''Empty''),
                     suggested = Text (orElse (cuisine a) [])\<rparr>)
             else changes1);
          changes3 =
            (if \<not> hasItems (current_tags recipe) \<and> hasItems (tags a)
             then changes2(''tags'' \<mapsto>
                    \<lparr>current = Items (orElseList (current_tags recipe) []),
                     suggested = Items (orElseList (tags a) [])\<rparr>)
             else changes2);
          changes4 =
            (if \<not> hasItems (current_ingredients recipe) \<and> hasItems (key_ingredients a)
             then changes3(''key_ingredients'' \<mapsto>
                    \<lparr>current = Items (orElseList (current_ingredients recipe) []),
                     suggested = Items (orElseList (key_ingredients a) [])\<rparr>)
             else changes3);
          changes5 =
            (if truthy (standardized_title a) \<and> standardized_title a \<noteq> Some (name recipe)
             then changes4(''title'' \<mapsto>
                    \<lparr>current = Text (name recipe),
                     suggested = Text (orElse (standardized_title a) [])\<rparr>)
             else changes4)
      in changes5)"

section \<open>Validation of a Classification Result\<close>

text \<open>
  \<^verbatim>\<open>validateAnalysis(analysis, recipe)\<close>. The source assigns to the four
  categorical fields of \<^verbatim>\<open>analysis\<close> in place, twice each, and returns the object;
  the model names the value of each field after each assignment and returns the record
  with the final values.
  \<^verbatim>\<open>options.includes(v)\<close> on an array is list membership.
\<close>

definition validateAnalysis :: "analysis \<Rightarrow> recipe \<Rightarrow> analysis" where
  "validateAnalysis a recipe =
     (let meal1 = (if truthy (current_meal recipe) then None else meal a);
          cuisine1 = (if truthy (current_cuisine recipe) then None else cuisine a);
          tags1 = (if hasItems (current_tags recipe) then None else tags a);
          key_ingredients1 =
            (if hasItems (current_ingredients recipe) then None else key_ingredients a);
          meal2 = (if truthy meal1 \<and> orElse meal1 [] \<notin> set MEAL_OPTIONS
                   then Some ''Main Dish'' else meal1);
          cuisine2 = (if truthy cuisine1 \<and> orElse cuisine1 [] \<notin> set CUISINE_OPTIONS
                      then Some ''American'' else cuisine1);
          tags2 = (case tags1 of
                     Some ts \<Rightarrow> Some (filter (\<lambda>tag. tag \<in> set TAG_OPTIONS) ts)
                   | None \<Rightarrow> None);
          key_ingredients2 =
            (case key_ingredients1 of
               Some ks \<Rightarrow> Some (filter (\<lambda>ing. ing \<in> set INGREDIENT_OPTIONS) ks)
             | None \<Rightarrow> None)
      in a\<lparr>meal := meal2, cuisine := cuisine2, tags := tags2,
           key_ingredients := key_ingredients2\<rparr>)"

section \<open>Fallback Classifier\<close>

text \<open>
  \<^verbatim>\<open>extractKeyIngredientsFromList\<close>. \<^verbatim>\<open>ingredientMapping\<close> is an object literal;
  \<^verbatim>\<open>Object.entries\<close> walks it in the order written, so it is an association list.
\<close>

definition ingredientMapping :: "(string \<times> string list) list" where
  "ingredientMapping =
     [(''chicken'', [''chicken'', ''poultry'']),
      (''beef'', [''beef'', ''ground beef'', ''steak'']),
      (''pork'', [''pork'', ''bacon'', ''ham'']),
      (''fish'', [''fish'', ''cod'', ''tilapia'']),
      (''salmon'', [''salmon'']),
      (''shrimp'', [''shrimp'', ''prawns'']),
      (''eggs'', [''egg'', ''eggs'']),
      (''cheese'', [''cheese'', ''cheddar'', ''mozzarella'', ''parmesan'']),
      (''pasta'', [''pasta'', ''spaghetti'', ''penne'', ''noodles'']),
      (''rice'', [''rice'', ''basmati'', ''jasmine'']),
      (''bread'', [''bread'', ''flour'', ''wheat'']),
      (''potato'', [''potato'', ''potatoes'']),
      (''tomato'', [''tomato'', ''tomatoes'']),
      (''onions'', [''onion'', ''onions'']),
      (''garlic'', [''garlic'']),
      (''spinach'', [''spinach'']),
      (''broccoli'', [''broccoli'']),
      (''carrot'', [''carrot'', ''carrots'']),
      (''mushrooms'', [''mushroom'', ''mushrooms'']),
      (''peppers'', [''pepper'', ''peppers'', ''bell pepper'']),
      (''lemon'', [''lemon'', ''lemons'']),
      (''basil'', [''basil'']),
      (''herbs'', [''herbs'', ''parsley'', ''cilantro'', ''oregano'']),
      (''ginger'', [''ginger'']),
      (''chili'', [''chili'', ''jalape'' @ [CHR 0xF1] @ ''o'', ''cayenne'']),
      (''beans'', [''beans'', ''black beans'', ''kidney beans'']),
      (''cream'', [''cream'', ''heavy cream'']),
      (''milk'', [''milk''])]"

text \<open>The body of the inner \<^verbatim>\<open>for\<close> loop, for one entry of the mapping.\<close>

definition matchMapping :: "string \<Rightarrow> string list \<Rightarrow> string \<times> string list \<Rightarrow> string list" where
  "matchMapping ingredient keyIngredients entry =
     (if list_ex (\<lambda>pattern. includesStr ingredient pattern) (snd entry)
      then (case find (\<lambda>opt. toLowerCase opt = toLowerCase (fst entry)) INGREDIENT_OPTIONS of
              Some mappedIngredient \<Rightarrow>
                if mappedIngredient \<noteq> [] \<and> mappedIngredient \<notin> set keyIngredients
                then keyIngredients @ [mappedIngredient] else keyIngredients
            | None \<Rightarrow> keyIngredients)
      else keyIngredients)"

text \<open>The outer loop, with its \<^verbatim>\<open>break\<close> once five or more names are collected.\<close>

fun scanIngredients :: "string list \<Rightarrow> string list \<Rightarrow> string list" where
  "scanIngredients [] keyIngredients = keyIngredients"
| "scanIngredients (scrapedIngredient # rest) keyIngredients =
     (let keyIngredients' =
            foldl (matchMapping (toLowerCase scrapedIngredient)) keyIngredients ingredientMapping
      in if length keyIngredients' \<ge> 5 then keyIngredients'
         else scanIngredients rest keyIngredients')"

definition extractKeyIngredientsFromList :: "string list \<Rightarrow> string list option" where
  "extractKeyIngredientsFromList scrapedIngredients =
     (let keyIngredients = scanIngredients (take 10 scrapedIngredients) []
      in if keyIngredients \<noteq> [] then Some keyIngredients else None)"

text \<open>
  \<^verbatim>\<open>inferTagsFromNameAndIngredients\<close>. Each \<^verbatim>\<open>if (c) tags.push(t)\<close> appends
  \<open>t\<close> when \<open>c\<close> holds; the pushes are split here into the fourteen method, dish and
  flavour tests and the final dietary test.
\<close>

definition pushIf :: "bool \<Rightarrow> string \<Rightarrow> string list" where
  "pushIf c t = (if c then [t] else [])"

definition meatKeywords :: "string list" where
  "meatKeywords = [''chicken'', ''beef'', ''pork'', ''fish'', ''salmon'', ''shrimp'']"

definition hasMeat :: "string \<Rightarrow> string \<Rightarrow> bool" where
  "hasMeat nm ingredientText =
     list_ex (\<lambda>meat. includesStr nm meat \<or> includesStr ingredientText meat) meatKeywords"

definition styleTags :: "string \<Rightarrow> string \<Rightarrow> string list" where
  "styleTags nm ingredientText =
     pushIf (includesStr nm ''baked'' \<or> includesStr nm ''baking'') ''Baked'' @
     pushIf (includesStr nm ''grilled'' \<or> includesStr nm ''grill'') ''Grilled'' @
     pushIf (includesStr nm ''roasted'' \<or> includesStr nm ''roast'') ''Roasted'' @
     pushIf (includesStr nm ''stir fry'' \<or> includesStr nm ''stir-fry'') ''Stir-Fry'' @
     pushIf (includesStr nm ''steamed'') ''Steamed'' @
     pushIf (includesStr nm ''braised'') ''Braised'' @
     pushIf (includesStr nm ''salad'') ''Salad'' @
     pushIf (includesStr nm ''soup'') ''Soup'' @
     pushIf (includesStr nm ''sandwich'') ''Sandwich'' @
     pushIf (includesStr nm ''pasta'') ''Pasta'' @
     pushIf (includesStr nm ''curry'') ''Curry'' @
     pushIf (includesStr nm ''spicy'' \<or> includesStr ingredientText ''chili'' \<or>
             includesStr ingredientText ''pepper'') ''Spicy'' @
     pushIf (includesStr nm ''sweet'' \<or> includesStr ingredientText ''sugar'' \<or>
             includesStr ingredientText ''honey'') ''Sweet'' @
     pushIf (includesStr nm ''creamy'' \<or> includesStr ingredientText ''cream'' \<or>
             includesStr ingredientText ''cheese'') ''Creamy''"

definition dietaryTags :: "string \<Rightarrow> string \<Rightarrow> string list" where
  "dietaryTags nm ingredientText =
     (if \<not> hasMeat nm ingredientText \<and> \<not> includesStr ingredientText ''egg'' \<and>
         \<not> includesStr ingredientText ''cheese''
      then [''Vegan'']
      else if \<not> hasMeat nm ingredientText then [''Vegetarian'']
      else [])"

definition inferTagsFromNameAndIngredients :: "string \<Rightarrow> string list \<Rightarrow> string list option" where
  "inferTagsFromNameAndIngredients nm ingredientList =
     (let ingredientText = toLowerCase (join '' '' ingredientList);
          tags = styleTags nm ingredientText @ dietaryTags nm ingredientText
      in if tags \<noteq> [] then Some (take 4 tags) else None)"

text \<open>
  \<^verbatim>\<open>createSmartFallbackAnalysis(recipe, extractedData)\<close>. It reads only its arguments
  and the fixed tables above. \<^verbatim>\<open>extractedData?.ingredients || []\<close> is the empty list
  when no page data is given.
\<close>

definition inferMeal :: "string \<Rightarrow> string" where
  "inferMeal nm =
     (if includesStr nm ''breakfast'' \<or> includesStr nm ''pancake'' \<or>
         includesStr nm ''oatmeal'' \<or> includesStr nm ''cereal'' then ''Breakfast''
      else if includesStr nm ''dessert'' \<or> includesStr nm ''cake'' \<or>
         includesStr nm ''cookie'' \<or> includesStr nm ''ice cream'' then ''Dessert''
      else if includesStr nm ''salad'' \<or> includesStr nm ''side'' \<or>
         includesStr nm ''appetizer'' then ''Side Dish''
      else if includesStr nm ''drink'' \<or> includesStr nm ''smoothie'' \<or>
         includesStr nm ''juice'' then ''Beverage''
      else if includesStr nm ''snack'' then ''Snack''
      else ''Main Dish'')"

definition inferCuisine :: "string \<Rightarrow> string option" where
  "inferCuisine nm =
     (if includesStr nm ''italian'' \<or> includesStr nm ''pasta'' \<or>
         includesStr nm ''pizza'' \<or> includesStr nm ''risotto'' then Some ''Italian''
      else if includesStr nm ''mexican'' \<or> includesStr nm ''taco'' \<or>
         includesStr nm ''burrito'' \<or> includesStr nm ''enchilada'' then Some ''Mexican''
      else if includesStr nm ''chinese'' \<or> includesStr nm ''stir fry'' \<or>
         includesStr nm ''wok'' then Some ''Chinese''
      else if includesStr nm ''indian'' \<or> includesStr nm ''curry'' \<or>
         includesStr nm ''masala'' then Some ''Indian''
      else if includesStr nm ''french'' \<or> includesStr nm ''crepe'' \<or>
         includesStr nm ''baguette'' then Some ''French''
      else if includesStr nm ''japanese'' \<or> includesStr nm ''sushi'' \<or>
         includesStr nm ''teriyaki'' then Some ''Japanese''
      else if includesStr nm ''thai'' \<or> includesStr nm ''pad thai'' then Some ''Thai''
      else if includesStr nm ''mediterranean'' \<or> includesStr nm ''greek''
        then Some ''Mediterranean''
      else None)"

definition createSmartFallbackAnalysis :: "recipe \<Rightarrow> page_data option \<Rightarrow> analysis" where
  "createSmartFallbackAnalysis recipe extractedData =
     (let nm = toLowerCase (name recipe);
          ings = (case extractedData of None \<Rightarrow> [] | Some d \<Rightarrow> ingredients d);
          meal' = (if \<not> truthy (current_meal recipe) then Some (inferMeal nm) else None);
          cuisine' = (if \<not> truthy (current_cuisine recipe) then inferCuisine nm else None);
          key_ingredients' =
            (if \<not> hasItems (current_ingredients recipe) \<and> ings \<noteq> []
             then extractKeyIngredientsFromList ings else None);
          tags' =
            (if \<not> hasItems (current_tags recipe)
             then inferTagsFromNameAndIngredients nm ings else None)
      in \<lparr>standardized_title = None, meal = meal', cuisine = cuisine', tags = tags',
          key_ingredients = key_ingredients', confidence = 7 / 10,
          reasoning = ''Smart rule-based analysis with ingredient extraction''\<rparr>)"

section \<open>Resilience layer: circuit breaker and cache\<close>

text \<open>
  The object \<^verbatim>\<open>circuitBreaker\<close>: \<^verbatim>\<open>failures\<close> is a counter and
  \<^verbatim>\<open>lastFailTime\<close> is \<^verbatim>\<open>null\<close> or a time stamp in milliseconds. Every
  \<^verbatim>\<open>Date.now()\<close> of the source is an explicit argument of the model. In
  \<^verbatim>\<open>Date.now() - this.lastFailTime\<close> a \<^verbatim>\<open>null\<close> counts as 0.
\<close>

record circuit_breaker =
  failures :: nat
  lastFailTime :: "int option"

definition threshold :: nat where
  "threshold = 3"

definition resetTime :: int where
  "resetTime = 5 * 60 * 1000"

definition isOpen :: "circuit_breaker \<Rightarrow> int \<Rightarrow> bool" where
  "isOpen b now =
     (if failures b \<ge> threshold
      then (let timeSinceLastFail = now - (case lastFailTime b of None \<Rightarrow> 0 | Some t \<Rightarrow> t)
            in timeSinceLastFail < resetTime)
      else False)"

definition recordSuccess :: "circuit_breaker \<Rightarrow> circuit_breaker" where
  "recordSuccess b = b\<lparr>failures := 0, lastFailTime := None\<rparr>"

definition recordFailure :: "circuit_breaker \<Rightarrow> int \<Rightarrow> circuit_breaker" where
  "recordFailure b now = b\<lparr>failures := failures b + 1, lastFailTime := Some now\<rparr>"

definition CACHE_TTL_MS :: int where
  "CACHE_TTL_MS = 24 * 60 * 60 * 1000"

record 'a cache_entry =
  data :: 'a
  timestamp :: int

text \<open>
  The process-wide state. The one \<^verbatim>\<open>Map\<close> of the source holds page data under keys
  \<^verbatim>\<open>scrape:...\<close> and analyses under keys \<^verbatim>\<open>ai:...\<close>; the two key families never
  meet, so the model keeps them as two maps, each under the full key. \<open>ai_requests\<close>
  counts the requests sent to the completion API: it stands for the network's side of
  \<^verbatim>\<open>fetch\<close>, so that a call that is skipped can be told from one that is made.
\<close>

record system_state =
  breaker :: circuit_breaker
  ai_cache :: "string \<rightharpoonup> analysis cache_entry"
  scrape_cache :: "string \<rightharpoonup> page_data cache_entry"
  ai_requests :: nat

section \<open>AI Classifier\<close>

text \<open>
  What the completion API does with one request: the \<^verbatim>\<open>fetch\<close> rejects or the
  25-second timeout wins (\<open>NoReply\<close>), the status is not 2xx (\<open>HttpError\<close>), the body
  is not the expected JSON envelope (\<open>BadBody\<close>), or the envelope is read (\<open>Reply\<close>).
  \<open>Reply\<close> carries the value of the whole expression
  \<^verbatim>\<open>data.choices?.[0]?.message?.content?.trim()\<close>: undefined, or the content with its
  white space already trimmed by the builtin.
\<close>

datatype ai_reply = NoReply | HttpError nat | BadBody | Reply "string option"

text \<open>
  \<^verbatim>\<open>JSON.parse\<close> is a builtin of the language; the model takes it as a parameter
  that tells a syntax error from a value that is no object (\<^verbatim>\<open>null\<close>, a number, a
  string, a boolean) and from an object, read as a Classification Result.
\<close>

datatype parsed = SyntaxError | NotObject | Parsed analysis

text \<open>
  \<^verbatim>\<open>analyzeRecipeWithAI(recipe, extractedData)\<close> of the production handler.
  \<open>now\<close> is the clock at entry (breaker and cache checks), \<open>later\<close> the clock when
  the reply is handled (\<^verbatim>\<open>recordFailure\<close>, \<^verbatim>\<open>cache.set\<close>). The three
  \<^verbatim>\<open>throw\<close>s and every rejected \<^verbatim>\<open>await\<close> inside the \<^verbatim>\<open>try\<close> reach the
  outer \<^verbatim>\<open>catch\<close>, which is \<open>onFailure\<close>; a \<^verbatim>\<open>JSON.parse\<close> that throws is caught
  by the inner \<^verbatim>\<open>catch\<close>, which returns the fallback and records nothing.
\<close>

definition aiCacheKey :: "recipe \<Rightarrow> string" where
  "aiCacheKey recipe = ''ai:'' @ name recipe @ '':'' @ link recipe"

text \<open>\<^verbatim>\<open>cached && Date.now() - cached.timestamp < CONFIG.CACHE_TTL_MS\<close>, then \<^verbatim>\<open>cached.data\<close>.\<close>

definition cachedAnalysis :: "system_state \<Rightarrow> string \<Rightarrow> int \<Rightarrow> analysis option" where
  "cachedAnalysis st cacheKey now =
     (case ai_cache st cacheKey of
        Some c \<Rightarrow> if now - timestamp c < CACHE_TTL_MS then Some (data c) else None
      | None \<Rightarrow> None)"

definition analyzeRecipeWithAI ::
  "string option \<Rightarrow> (string \<Rightarrow> parsed) \<Rightarrow> ai_reply \<Rightarrow> int \<Rightarrow> int \<Rightarrow>
   system_state \<Rightarrow> recipe \<Rightarrow> page_data option \<Rightarrow> analysis \<times> system_state" where
  "analyzeRecipeWithAI OPENAI_API_KEY JSON_parse reply now later st recipe extractedData =
     (if \<not> truthy OPENAI_API_KEY \<or> isOpen (breaker st) now
      then (createSmartFallbackAnalysis recipe extractedData, st)
      else
        let cacheKey = aiCacheKey recipe
        in (case cachedAnalysis st cacheKey now of
              Some hit \<Rightarrow> (hit, st)
            | None \<Rightarrow>
                (let sent = st\<lparr>ai_requests := Suc (ai_requests st)\<rparr>;
                     onFailure =
                       (createSmartFallbackAnalysis recipe extractedData,
                        sent\<lparr>breaker := recordFailure (breaker sent) later\<rparr>)
                 in (case reply of
                       NoReply \<Rightarrow> onFailure
                     | HttpError status \<Rightarrow> onFailure
                     | BadBody \<Rightarrow> onFailure
                     | Reply None \<Rightarrow> onFailure
                     | Reply (Some content) \<Rightarrow>
                         (if content = [] then onFailure
                          else (case JSON_parse content of
                                  SyntaxError \<Rightarrow>
                                    (createSmartFallbackAnalysis recipe extractedData, sent)
                                | NotObject \<Rightarrow> onFailure
                                | Parsed result \<Rightarrow>
                                    (result,
                                     sent\<lparr>ai_cache :=
                                            (ai_cache sent)(cacheKey \<mapsto>
                                               \<lparr>data = result, timestamp = later\<rparr>),
                                          breaker := recordSuccess (breaker sent)\<rparr>)))))))"

text \<open>
  The replies at which the source reaches the outer \<^verbatim>\<open>catch\<close>: no reply, a status
  that is not ok, an unreadable envelope, missing or empty content, and content that parses
  to something that is no object. \<open>aiCallFails\<close> says that a call at time \<open>now\<close> in state
  \<open>st\<close> gets as far as the request and that the reply is one of these.
\<close>

definition replyFails :: "(string \<Rightarrow> parsed) \<Rightarrow> ai_reply \<Rightarrow> bool" where
  "replyFails JSON_parse reply =
     (case reply of
        NoReply \<Rightarrow> True
      | HttpError status \<Rightarrow> True
      | BadBody \<Rightarrow> True
      | Reply None \<Rightarrow> True
      | Reply (Some content) \<Rightarrow> content = [] \<or> JSON_parse content = NotObject)"

definition aiCallFails ::
  "string option \<Rightarrow> (string \<Rightarrow> parsed) \<Rightarrow> ai_reply \<Rightarrow> int \<Rightarrow> system_state \<Rightarrow> recipe \<Rightarrow>
   bool" where
  "aiCallFails OPENAI_API_KEY JSON_parse reply now st recipe =
     (truthy OPENAI_API_KEY \<and> \<not> isOpen (breaker st) now \<and>
      cachedAnalysis st (aiCacheKey recipe) now = None \<and> replyFails JSON_parse reply)"

section \<open>Exceptions\<close>

text \<open>
  A thrown value or a rejected promise is \<open>Inl\<close> of an error; \<^verbatim>\<open>await\<close> of a promise
  that resolves is \<open>Inr\<close> of its value. \<open>bindE\<close> sequences two steps, the second skipped
  when the first throws; \<open>try_catch\<close> is \<^verbatim>\<open>try { ... } catch (error) { ... }\<close>.
\<close>

datatype js_error = JsError string

definition bindE :: "js_error + 'a \<Rightarrow> ('a \<Rightarrow> js_error + 'b) \<Rightarrow> js_error + 'b" where
  "bindE m f = (case m of Inl e \<Rightarrow> Inl e | Inr v \<Rightarrow> f v)"

definition try_catch :: "js_error + 'a \<Rightarrow> (js_error \<Rightarrow> js_error + 'a) \<Rightarrow> js_error + 'a" where
  "try_catch body handler = (case body of Inl e \<Rightarrow> handler e | Inr v \<Rightarrow> Inr v)"

section \<open>Page Extractor\<close>

text \<open>
  What \<^verbatim>\<open>fetch(url)\<close> yields: a rejection (network error) or a response with a status
  and a body; reading the body (\<^verbatim>\<open>response.text()\<close>) may itself reject.
  \<^verbatim>\<open>response.ok\<close> is true for the statuses 200 to 299. The HTML parser and the five
  selector heuristics (\<^verbatim>\<open>cheerio.load\<close>, \<^verbatim>\<open>extractTitle\<close>, ...) are the parameter
  \<open>scrape\<close>, which yields the page data or throws.
\<close>

record http_response =
  http_status :: nat
  http_body :: "js_error + string"

definition response_ok :: "http_response \<Rightarrow> bool" where
  "response_ok res = (200 \<le> http_status res \<and> http_status res \<le> 299)"

datatype fetch_result = Rejected js_error | Resolved http_response

text \<open>
  \<^verbatim>\<open>extractRecipeFromURL(url)\<close> of the simple variant: one \<^verbatim>\<open>fetch\<close>, an early
  \<^verbatim>\<open>return null\<close> on a status that is not ok, everything inside one \<^verbatim>\<open>try\<close> whose
  \<^verbatim>\<open>catch\<close> returns \<^verbatim>\<open>null\<close>.
\<close>

definition extractRecipeFromURL_simple ::
  "(string \<Rightarrow> fetch_result) \<Rightarrow> (string \<Rightarrow> js_error + page_data) \<Rightarrow> string \<Rightarrow>
   js_error + page_data option" where
  "extractRecipeFromURL_simple fetch scrape url =
     (if url = [] then Inr None
      else try_catch
             (bindE (case fetch url of Rejected e \<Rightarrow> Inl e | Resolved res \<Rightarrow> Inr res)
                (\<lambda>response.
                   if \<not> response_ok response then Inr None
                   else bindE (http_body response)
                          (\<lambda>html. bindE (scrape html) (\<lambda>recipeData. Inr (Some recipeData)))))
             (\<lambda>error. Inr None))"

text \<open>
  \<^verbatim>\<open>withTimeout(promise, timeoutMs, errorMessage)\<close> races the promise against a timer;
  \<open>timerFirst\<close> says that the timer settles first. \<^verbatim>\<open>withRetry(fn, maxRetries)\<close> runs
  \<^verbatim>\<open>fn\<close> for the attempts 1 to \<open>maxRetries\<close> and rethrows the error of the last one;
  the third argument counts the attempts that are left, and a loop that is never entered
  returns \<^verbatim>\<open>undefined\<close> (\<open>None\<close>).
\<close>

definition withTimeout :: "bool \<Rightarrow> string \<Rightarrow> js_error + 'a \<Rightarrow> js_error + 'a" where
  "withTimeout timerFirst errorMessage promise =
     (if timerFirst then Inl (JsError errorMessage) else promise)"

fun withRetry :: "(nat \<Rightarrow> js_error + 'a) \<Rightarrow> nat \<Rightarrow> nat \<Rightarrow> js_error + 'a option" where
  "withRetry fn attempt 0 = Inr None"
| "withRetry fn attempt (Suc left) =
     (case fn attempt of
        Inr v \<Rightarrow> Inr (Some v)
      | Inl e \<Rightarrow> if left = 0 then Inl e else withRetry fn (Suc attempt) left)"

definition MAX_RETRIES :: nat where
  "MAX_RETRIES = 2"

definition cachedPage :: "system_state \<Rightarrow> string \<Rightarrow> int \<Rightarrow> page_data option" where
  "cachedPage st cacheKey now =
     (case scrape_cache st cacheKey of
        Some c \<Rightarrow> if now - timestamp c < CACHE_TTL_MS then Some (data c) else None
      | None \<Rightarrow> None)"

text \<open>
  \<^verbatim>\<open>extractRecipeFromURL(url)\<close> of the production handler, with the cache, the retry
  and the 15-second timeout. \<open>fetch\<close> gives the outcome of each attempt. The callback
  handed to \<^verbatim>\<open>withRetry\<close> is
  \<^verbatim>\<open>const res = await fetch(url, ...); if (!response.ok) { throw ... } return res;\<close>
  where \<^verbatim>\<open>response\<close> is the \<^verbatim>\<open>const\<close> of the enclosing block that the whole
  \<^verbatim>\<open>await withTimeout(...)\<close> is still initialising: reading it throws a
  ReferenceError, so the callback throws also when the fetch resolves. Every throw inside
  the \<^verbatim>\<open>try\<close> reaches the \<^verbatim>\<open>catch\<close>, which returns \<^verbatim>\<open>null\<close>.
\<close>

definition extractRecipeFromURL ::
  "(nat \<Rightarrow> fetch_result) \<Rightarrow> bool \<Rightarrow> (string \<Rightarrow> js_error + page_data) \<Rightarrow> int \<Rightarrow> int \<Rightarrow>
   system_state \<Rightarrow> string \<Rightarrow> (js_error + page_data option) \<times> system_state" where
  "extractRecipeFromURL fetch timerFirst scrape now later st url =
     (if url = [] then (Inr None, st)
      else
        let cacheKey = ''scrape:'' @ url
        in case cachedPage st cacheKey now of
             Some hit \<Rightarrow> (Inr (Some hit), st)
           | None \<Rightarrow>
               (case bindE
                       (withTimeout timerFirst ''Web scraping timeout''
                          (withRetry
                             (\<lambda>attempt.
                                case fetch attempt of
                                  Rejected e \<Rightarrow> Inl e
                                | Resolved res \<Rightarrow>
                                    Inl (JsError ''Cannot access response before initialization''))
                             1 MAX_RETRIES))
                       (\<lambda>response.
                          bindE (case response of
                                   None \<Rightarrow> Inl (JsError ''response is undefined'')
                                 | Some (res :: http_response) \<Rightarrow> http_body res)
                            (\<lambda>html.
                               bindE (scrape html)
                                 (\<lambda>recipeData.
                                    Inr (recipeData,
                                         st\<lparr>scrape_cache :=
                                              (scrape_cache st)(cacheKey \<mapsto>
                                                 \<lparr>data = recipeData, timestamp = later\<rparr>)\<rparr>)))) of
                  Inl error \<Rightarrow> (Inr None, st)
                | Inr (recipeData, st') \<Rightarrow> (Inr (Some recipeData), st')))"

section \<open>Enrichment Orchestrator\<close>

text \<open>
  One element of the result of \<^verbatim>\<open>createReviewData\<close>.
  \<^verbatim>\<open>extractedData || { source: 'notion-only' }\<close> is \<open>NotionOnly\<close> when there is no page
  data.
\<close>

datatype page_context = Extracted page_data | NotionOnly

record review_item =
  item_recipe :: recipe
  item_extractedData :: page_context
  item_analysis :: analysis
  suggestedChanges :: changes

text \<open>
  The body of the \<^verbatim>\<open>try\<close> in the per-recipe function of \<^verbatim>\<open>createReviewData\<close>.
  The two awaited method calls are parameters: \<open>extract\<close> and \<open>analyze\<close> give what
  \<^verbatim>\<open>await this.extractRecipeFromURL(recipe.link)\<close> and
  \<^verbatim>\<open>await this.analyzeRecipeWithAI(recipe, extractedData)\<close> yield for this recipe, a
  value or a throw, whatever the other recipes of the batch did to the shared cache and
  breaker in between.
\<close>

definition recipeOutcome ::
  "(string \<Rightarrow> js_error + page_data option) \<Rightarrow>
   (recipe \<Rightarrow> page_data option \<Rightarrow> js_error + analysis option) \<Rightarrow> recipe \<Rightarrow>
   js_error + review_item option" where
  "recipeOutcome extract analyze recipe =
     bindE (if link recipe \<noteq> [] then extract (link recipe) else Inr None)
       (\<lambda>extractedData.
          bindE (analyze recipe extractedData)
            (\<lambda>result.
               case result of
                 Some a \<Rightarrow>
                   Inr (Some \<lparr>item_recipe = recipe,
                              item_extractedData =
                                (case extractedData of Some d \<Rightarrow> Extracted d | None \<Rightarrow> NotionOnly),
                              item_analysis = a,
                              suggestedChanges = formatSuggestedChanges recipe a extractedData\<rparr>)
               | None \<Rightarrow> Inr None))"

text \<open>The per-recipe function: the body above, and \<^verbatim>\<open>catch (error) { return null; }\<close>.\<close>

definition processRecipe ::
  "(string \<Rightarrow> js_error + page_data option) \<Rightarrow>
   (recipe \<Rightarrow> page_data option \<Rightarrow> js_error + analysis option) \<Rightarrow> recipe \<Rightarrow>
   js_error + review_item option" where
  "processRecipe extract analyze recipe =
     try_catch (recipeOutcome extract analyze recipe) (\<lambda>error. Inr None)"

text \<open>\<^verbatim>\<open>Promise.all\<close> rejects as soon as one of the promises rejects.\<close>

fun promiseAll :: "(js_error + 'a) list \<Rightarrow> js_error + 'a list" where
  "promiseAll [] = Inr []"
| "promiseAll (p # ps) =
     (case p of
        Inl e \<Rightarrow> Inl e
      | Inr v \<Rightarrow> (case promiseAll ps of Inl e \<Rightarrow> Inl e | Inr vs \<Rightarrow> Inr (v # vs)))"

definition MAX_RECIPES_PER_BATCH :: nat where
  "MAX_RECIPES_PER_BATCH = 3"

definition createReviewData ::
  "(string \<Rightarrow> js_error + page_data option) \<Rightarrow>
   (recipe \<Rightarrow> page_data option \<Rightarrow> js_error + analysis option) \<Rightarrow> recipe list \<Rightarrow>
   js_error + review_item list" where
  "createReviewData extract analyze recipes =
     (let processedRecipes = take MAX_RECIPES_PER_BATCH recipes;
          processingPromises = map (processRecipe extract analyze) processedRecipes
      in bindE (promiseAll processingPromises)
           (\<lambda>results. Inr (map the (filter (\<lambda>item. item \<noteq> None) results))))"

section \<open>Regular expressions\<close>

text \<open>
  The regular expressions of the source are sequences of four kinds of item: one character
  of a class, a greedy \<^verbatim>\<open>*\<close> over a class, a greedy \<^verbatim>\<open>?\<close> over a class, and
  the end of input \<^verbatim>\<open>$\<close>; \<^verbatim>\<open>x+\<close> is \<^verbatim>\<open>xx*\<close>. \<open>matchHere\<close> is the
  backtracking matcher at one position: a greedy item first takes a character and gives it
  back only when the rest of the pattern fails. It returns the input left after the match.
\<close>

datatype rx = One "char \<Rightarrow> bool" | Many "char \<Rightarrow> bool" | Maybe "char \<Rightarrow> bool" | EndOfInput

fun matchHere :: "rx list \<Rightarrow> string \<Rightarrow> string option" where
  "matchHere [] s = Some s"
| "matchHere (One p # r) [] = None"
| "matchHere (One p # r) (c # cs) = (if p c then matchHere r cs else None)"
| "matchHere (Maybe p # r) [] = matchHere r []"
| "matchHere (Maybe p # r) (c # cs) =
     (if p c
      then (case matchHere r cs of Some rest \<Rightarrow> Some rest | None \<Rightarrow> matchHere r (c # cs))
      else matchHere r (c # cs))"
| "matchHere (Many p # r) [] = matchHere r []"
| "matchHere (Many p # r) (c # cs) =
     (if p c
      then (case matchHere (Many p # r) cs of
              Some rest \<Rightarrow> Some rest
            | None \<Rightarrow> matchHere r (c # cs))
      else matchHere r (c # cs))"
| "matchHere (EndOfInput # r) s = (if s = [] then matchHere r s else None)"

text \<open>
  \<^verbatim>\<open>s.replace(regex, '')\<close> without the \<^verbatim>\<open>g\<close> flag removes the leftmost match
  only; with a leading \<^verbatim>\<open>^\<close> the match is tried at the start only.
\<close>

fun removeFirst :: "rx list \<Rightarrow> string \<Rightarrow> string" where
  "removeFirst r [] = (case matchHere r [] of Some rest \<Rightarrow> rest | None \<Rightarrow> [])"
| "removeFirst r (c # cs) =
     (case matchHere r (c # cs) of Some rest \<Rightarrow> rest | None \<Rightarrow> c # removeFirst r cs)"


text \<open>Character classes: a literal, a literal under the \<^verbatim>\<open>i\<close> flag, and \<^verbatim>\<open>.\<close>.\<close>

definition lit :: "char \<Rightarrow> char \<Rightarrow> bool" where
  "lit c x = (x = c)"


definition anyChar :: "char \<Rightarrow> bool" where
  "anyChar x = (\<not> isLineTerminator x)"

section \<open>Title standardization\<close>









text \<open>\<^verbatim>\<open>.replace(/^./, c => c.toUpperCase())\<close>; the dot does not match a line terminator.\<close>

definition upperFirst :: "string \<Rightarrow> string" where
  "upperFirst s =
     (case s of [] \<Rightarrow> [] | c # cs \<Rightarrow> if anyChar c then toUpperChar c # cs else c # cs)"



section \<open>Code fences in the AI reply\<close>

text \<open>
  The clean-up of the AI reply in the variant that has one:
  \<^verbatim>\<open>if (aiContent.includes('```')) aiContent = aiContent.replace(/```json\n?/, '').replace(/```\n?/, '')\<close>.
\<close>

definition fenceJson :: "rx list" where
  "fenceJson = map (\<lambda>c. One (lit c)) ''```json'' @ [Maybe (lit (CHR 0x0A))]"

definition fence :: "rx list" where
  "fence = map (\<lambda>c. One (lit c)) ''```'' @ [Maybe (lit (CHR 0x0A))]"

definition stripCodeFences :: "string \<Rightarrow> string" where
  "stripCodeFences aiContent =
     (if includesStr aiContent ''```'' then removeFirst fence (removeFirst fenceJson aiContent)
      else aiContent)"

section \<open>Refresh modes of the simple variant\<close>

text \<open>
  \<^verbatim>\<open>filterExtractedData(extractedData, missingFields)\<close> reads
  \<^verbatim>\<open>extractedData.title\<close> without a test for \<^verbatim>\<open>null\<close>: on \<^verbatim>\<open>null\<close> it throws
  a TypeError. The page data of \<^verbatim>\<open>extractRecipeFromURL\<close> has no \<^verbatim>\<open>imageUrl\<close>, so
  the third copy never happens.
\<close>

record filtered_data =
  filtered_title :: "string option"
  filtered_images :: "image list option"

definition filterExtractedData :: "page_data option \<Rightarrow> js_error + filtered_data" where
  "filterExtractedData extractedData =
     (case extractedData of
        None \<Rightarrow> Inl (JsError ''Cannot read properties of null (reading title)'')
      | Some d \<Rightarrow>
          Inr \<lparr>filtered_title = (if truthy (title d) then title d else None),
               filtered_images = images d\<rparr>)"

text \<open>\<^verbatim>\<open>createBasicAnalysis(extractedData)\<close> of the simple variant.\<close>

definition createBasicAnalysis :: "page_data option \<Rightarrow> analysis" where
  "createBasicAnalysis extractedData =
     \<lparr>standardized_title = None, meal = None, cuisine = None,
      tags = Some (case extractedData of None \<Rightarrow> [] | Some d \<Rightarrow> take 3 (ingredients d)),
      key_ingredients =
        Some (case extractedData of None \<Rightarrow> [] | Some d \<Rightarrow> take 5 (ingredients d)),
      confidence = 1 / 2,
      reasoning = ''Basic analysis - AI processing was unavailable''\<rparr>"

text \<open>
  \<^verbatim>\<open>formatSuggestedChanges(recipe, analysis)\<close> of the simple variant, as the refresh
  modes call it, with no third argument: \<^verbatim>\<open>extractedData?.imageUrl\<close> is undefined and
  there is no image entry. An array is truthy also when it is empty.
\<close>

definition formatSuggestedChanges_simple :: "recipe \<Rightarrow> analysis \<Rightarrow> changes" where
  "formatSuggestedChanges_simple recipe a =
     (let changes0 = Map.empty;
          changes1 =
            (if truthy (standardized_title a) \<and> standardized_title a \<noteq> Some (name recipe)
             then changes0(''title'' \<mapsto>
                    \<lparr>current = Text (name recipe),
                     suggested = Text (orElse (standardized_title a) [])\<rparr>)
             else changes0);
          changes2 =
            (if truthy (meal a) \<and> \<not> truthy (current_meal recipe)
             then changes1(''meal'' \<mapsto>
                    \<lparr>current = Text ''Empty'', suggested = Text (orElse (meal a) [])\<rparr>)
             else changes1);
          changes3 =
            (if truthy (cuisine a) \<and> \<not> truthy (current_cuisine recipe)
             then changes2(''cuisine'' \<mapsto>
                    \<lparr>current = Text ''Empty'', suggested = Text (orElse (cuisine a) [])\<rparr>)
             else changes2);
          changes4 =
            (if tags a \<noteq> None \<and> \<not> hasItems (current_tags recipe)
             then changes3(''tags'' \<mapsto>
                    \<lparr>current = Items (orElseList (current_tags recipe) []),
                     suggested = Items (orElseList (tags a) [])\<rparr>)
             else changes3);
          changes5 =
            (if key_ingredients a \<noteq> None \<and> \<not> hasItems (current_ingredients recipe)
             then changes4(''key_ingredients'' \<mapsto>
                    \<lparr>current = Items (orElseList (current_ingredients recipe) []),
                     suggested = Items (orElseList (key_ingredients a) [])\<rparr>)
             else changes4)
      in changes5)"

record refresh_item =
  refresh_recipe :: recipe
  refresh_extractedData :: filtered_data
  refresh_analysis :: analysis
  refresh_suggestedChanges :: changes

text \<open>
  \<^verbatim>\<open>createReviewDataWithWebsiteRefresh(recipes)\<close>: a \<^verbatim>\<open>for\<close> loop over the first
  five recipes that pushes onto \<^verbatim>\<open>reviewItems\<close>. Only the classification sits in a
  \<^verbatim>\<open>try\<close>; a throw anywhere else leaves the loop and rejects the whole call. As in
  the orchestrator above, \<open>extract\<close> and \<open>analyze\<close> give what the two awaited method
  calls yield.
\<close>

definition MAX_RECIPES_PER_BATCH_simple :: nat where
  "MAX_RECIPES_PER_BATCH_simple = 5"

fun refreshLoop ::
  "(string \<Rightarrow> js_error + page_data option) \<Rightarrow>
   (recipe \<Rightarrow> page_data option \<Rightarrow> js_error + analysis option) \<Rightarrow> recipe list \<Rightarrow>
   refresh_item list \<Rightarrow> js_error + refresh_item list" where
  "refreshLoop extract analyze [] reviewItems = Inr reviewItems"
| "refreshLoop extract analyze (recipe # rest) reviewItems =
     (case extract (link recipe) of
        Inl e \<Rightarrow> Inl e
      | Inr extractedData \<Rightarrow>
          (case try_catch (analyze recipe extractedData)
                  (\<lambda>error. Inr (Some (createBasicAnalysis extractedData))) of
             Inl e \<Rightarrow> Inl e
           | Inr None \<Rightarrow> refreshLoop extract analyze rest reviewItems
           | Inr (Some a) \<Rightarrow>
               (case filterExtractedData extractedData of
                  Inl e \<Rightarrow> Inl e
                | Inr filtered \<Rightarrow>
                    refreshLoop extract analyze rest
                      (reviewItems @
                       [\<lparr>refresh_recipe = recipe, refresh_extractedData = filtered,
                         refresh_analysis = a,
                         refresh_suggestedChanges =
                           formatSuggestedChanges_simple recipe a\<rparr>]))))"

definition createReviewDataWithWebsiteRefresh ::
  "(string \<Rightarrow> js_error + page_data option) \<Rightarrow>
   (recipe \<Rightarrow> page_data option \<Rightarrow> js_error + analysis option) \<Rightarrow> recipe list \<Rightarrow>
   js_error + refresh_item list" where
  "createReviewDataWithWebsiteRefresh extract analyze recipes =
     refreshLoop extract analyze (take MAX_RECIPES_PER_BATCH_simple recipes) []"

section \<open>Sample inputs\<close>

text \<open>Concrete recipes and Classification Results at which the theorems below are instantiated.\<close>

definition tart_recipe :: recipe where
  "tart_recipe =
     \<lparr>recipe_id = ''page-0001'', name = ''Lemon Tart'', link = [],
      current_meal = Some ''Dessert'', current_cuisine = Some ''French'',
      current_tags = Some [''Sweet''], current_ingredients = Some [''Lemon'']\<rparr>"

definition curry_recipe :: recipe where
  "curry_recipe =
     \<lparr>recipe_id = ''page-0002'', name = ''Spicy Chicken Curry'', link = [],
      current_meal = None, current_cuisine = None,
      current_tags = Some [], current_ingredients = Some []\<rparr>"

definition linked_recipe :: recipe where
  "linked_recipe =
     \<lparr>recipe_id = ''page-0003'', name = ''Grilled Salmon'', link = ''http://down.example/salmon'',
      current_meal = None, current_cuisine = None,
      current_tags = Some [], current_ingredients = Some []\<rparr>"

text \<open>An extraction that throws, and a classification that always yields the fallback result.\<close>

definition throwing_extract :: "string \<Rightarrow> js_error + page_data option" where
  "throwing_extract url = Inl (JsError ''socket hang up'')"

definition fallback_analyze :: "recipe \<Rightarrow> page_data option \<Rightarrow> js_error + analysis option" where
  "fallback_analyze recipe extractedData =
     Inr (Some (createSmartFallbackAnalysis recipe extractedData))"

definition not_found :: http_response where
  "not_found = \<lparr>http_status = 404, http_body = Inr ''Not Found''\<rparr>"

definition page_ok :: http_response where
  "page_ok = \<lparr>http_status = 200, http_body = Inr ''<html><h1>Salmon</h1>''\<rparr>"

definition initial_state :: system_state where
  "initial_state =
     \<lparr>breaker = \<lparr>failures = 0, lastFailTime = None\<rparr>, ai_cache = Map.empty,
      scrape_cache = Map.empty, ai_requests = 0\<rparr>"

definition api_key :: "string option" where
  "api_key = Some ''sk-test''"

text \<open>
  A reply whose content is the JSON text of an object with a meal outside the registry,
  the object itself, and what \<^verbatim>\<open>JSON.parse\<close> makes of the texts used below: the
  object for that text, no object for \<^verbatim>\<open>null\<close>, a syntax error for text with a
  code fence on it. It stands for the builtin on these texts only.
\<close>

definition quoted :: "string \<Rightarrow> string" where
  "quoted s = CHR 0x22 # s @ [CHR 0x22]"

definition brunch_reply :: string where
  "brunch_reply =
     ''{'' @ quoted ''meal'' @ '':'' @ quoted ''Brunch'' @ '','' @
     quoted ''confidence'' @ '':0.9,'' @ quoted ''reasoning'' @ '':'' @ quoted ''guess'' @ ''}''"

definition brunch_analysis :: analysis where
  "brunch_analysis =
     \<lparr>standardized_title = None, meal = Some ''Brunch'', cuisine = None,
      tags = None, key_ingredients = None, confidence = 9 / 10, reasoning = ''guess''\<rparr>"

definition sample_JSON_parse :: "string \<Rightarrow> parsed" where
  "sample_JSON_parse content =
     (if content = brunch_reply then Parsed brunch_analysis
      else if content = ''null'' then NotObject
      else SyntaxError)"

text \<open>
  The states reached from the initial one by three calls in a row that get no reply, a
  status 500 and a reply without content, handled at 2, 4 and 6 seconds.
\<close>

definition after_one_failure :: system_state where
  "after_one_failure =
     snd (analyzeRecipeWithAI api_key sample_JSON_parse NoReply 1000 2000
            initial_state curry_recipe None)"

definition after_two_failures :: system_state where
  "after_two_failures =
     snd (analyzeRecipeWithAI api_key sample_JSON_parse (HttpError 500) 3000 4000
            after_one_failure curry_recipe None)"

definition after_three_failures :: system_state where
  "after_three_failures =
     snd (analyzeRecipeWithAI api_key sample_JSON_parse (Reply None) 5000 6000
            after_two_failures curry_recipe None)"

text \<open>A classification that yields a validated result, as the simple variant returns it.\<close>

definition validated_analyze :: "recipe \<Rightarrow> page_data option \<Rightarrow> js_error + analysis option" where
  "validated_analyze recipe extractedData =
     Inr (Some (validateAnalysis brunch_analysis recipe))"

definition refused_fetch :: "string \<Rightarrow> fetch_result" where
  "refused_fetch url = Rejected (JsError ''connect ECONNREFUSED'')"

definition no_scrape :: "string \<Rightarrow> js_error + page_data" where
  "no_scrape html = Inl (JsError ''parse error'')"

definition off_list_analysis :: analysis where
  "off_list_analysis =
     \<lparr>standardized_title = None, meal = Some ''Brunch'', cuisine = Some ''Martian'',
      tags = Some [''Baked'', ''Crunchy''], key_ingredients = Some [''Eggs'', ''Saffron''],
      confidence = 9 / 10, reasoning = ''guess''\<rparr>"

definition empty_meal_analysis :: analysis where
  "empty_meal_analysis =
     \<lparr>standardized_title = None, meal = Some [], cuisine = None,
      tags = None, key_ingredients = None, confidence = 9 / 10, reasoning = ''none''\<rparr>"

section \<open>Never-overwrite invariant\<close>

text \<open>
  C1. For every recipe record and every Classification Result, whichever classifier it
  came from: when the recipe's meal, cuisine, tags or key ingredients already hold a value,
  the Suggested Change Set built by \<^const>\<open>formatSuggestedChanges\<close> has no entry for that
  field.
\<close>

theorem never_overwrite:
  "(truthy (current_meal r) \<longrightarrow> formatSuggestedChanges r a e ''meal'' = None) \<and>
   (truthy (current_cuisine r) \<longrightarrow> formatSuggestedChanges r a e ''cuisine'' = None) \<and>
   (hasItems (current_tags r) \<longrightarrow> formatSuggestedChanges r a e ''tags'' = None) \<and>
   (hasItems (current_ingredients r) \<longrightarrow>
      formatSuggestedChanges r a e ''key_ingredients'' = None)"
  by (simp add: formatSuggestedChanges_def Let_def)

theorem never_overwrite_witness:
  "truthy (current_meal tart_recipe) \<and> truthy (current_cuisine tart_recipe) \<and>
   hasItems (current_tags tart_recipe) \<and> hasItems (current_ingredients tart_recipe) \<and>
   formatSuggestedChanges tart_recipe off_list_analysis None ''meal'' = None \<and>
   formatSuggestedChanges tart_recipe off_list_analysis None ''cuisine'' = None \<and>
   formatSuggestedChanges tart_recipe off_list_analysis None ''tags'' = None \<and>
   formatSuggestedChanges tart_recipe off_list_analysis None ''key_ingredients'' = None"
  using never_overwrite [of tart_recipe off_list_analysis None]
  by (simp add: tart_recipe_def)

section \<open>Vocabulary closure\<close>

text \<open>The value of each categorical field after validation.\<close>

lemma validate_meal:
  "meal (validateAnalysis a r) =
     (if truthy (current_meal r) then None
      else if truthy (meal a) \<and> orElse (meal a) [] \<notin> set MEAL_OPTIONS then Some ''Main Dish''
      else meal a)"
  by (simp add: validateAnalysis_def Let_def)

lemma validate_cuisine:
  "cuisine (validateAnalysis a r) =
     (if truthy (current_cuisine r) then None
      else if truthy (cuisine a) \<and> orElse (cuisine a) [] \<notin> set CUISINE_OPTIONS
        then Some ''American''
      else cuisine a)"
  by (simp add: validateAnalysis_def Let_def)

lemma validate_tags:
  "tags (validateAnalysis a r) =
     (if hasItems (current_tags r) then None
      else map_option (filter (\<lambda>tag. tag \<in> set TAG_OPTIONS)) (tags a))"
  by (simp add: validateAnalysis_def Let_def split: option.splits)

lemma validate_key_ingredients:
  "key_ingredients (validateAnalysis a r) =
     (if hasItems (current_ingredients r) then None
      else map_option (filter (\<lambda>ing. ing \<in> set INGREDIENT_OPTIONS)) (key_ingredients a))"
  by (simp add: validateAnalysis_def Let_def split: option.splits)

lemma main_dish_member: "''Main Dish'' \<in> set MEAL_OPTIONS"
  by (simp add: MEAL_OPTIONS_def)

lemma american_member: "''American'' \<in> set CUISINE_OPTIONS"
  by (simp add: CUISINE_OPTIONS_def)

text \<open>
  What the validation step of the simple variant gives, whatever produced the result:
  a meal or cuisine that is neither null nor the empty string belongs to its axis, and
  every element of a tag or key-ingredient list belongs to its axis. On a field the recipe
  leaves empty, a non-empty meal outside the axis becomes \<open>Main Dish\<close>, a non-empty cuisine
  outside the axis becomes \<open>American\<close>, and the two lists are filtered to the members of
  their axes. The tests \<^verbatim>\<open>analysis.meal && ...\<close> skip the empty string, which is
  returned as it is.
\<close>

lemma validateAnalysis_closure:
  "(\<forall>m. meal (validateAnalysis a r) = Some m \<and> m \<noteq> [] \<longrightarrow> m \<in> set MEAL_OPTIONS) \<and>
   (\<forall>c. cuisine (validateAnalysis a r) = Some c \<and> c \<noteq> [] \<longrightarrow> c \<in> set CUISINE_OPTIONS) \<and>
   (\<forall>ts. tags (validateAnalysis a r) = Some ts \<longrightarrow> set ts \<subseteq> set TAG_OPTIONS) \<and>
   (\<forall>ks. key_ingredients (validateAnalysis a r) = Some ks \<longrightarrow>
      set ks \<subseteq> set INGREDIENT_OPTIONS) \<and>
   (\<forall>m. \<not> truthy (current_meal r) \<and> meal a = Some m \<and> m \<noteq> [] \<and> m \<notin> set MEAL_OPTIONS \<longrightarrow>
      meal (validateAnalysis a r) = Some ''Main Dish'') \<and>
   (\<forall>c. \<not> truthy (current_cuisine r) \<and> cuisine a = Some c \<and> c \<noteq> [] \<and>
        c \<notin> set CUISINE_OPTIONS \<longrightarrow>
      cuisine (validateAnalysis a r) = Some ''American'') \<and>
   (\<forall>ts. \<not> hasItems (current_tags r) \<and> tags a = Some ts \<longrightarrow>
      tags (validateAnalysis a r) = Some (filter (\<lambda>tag. tag \<in> set TAG_OPTIONS) ts)) \<and>
   (\<forall>ks. \<not> hasItems (current_ingredients r) \<and> key_ingredients a = Some ks \<longrightarrow>
      key_ingredients (validateAnalysis a r) =
        Some (filter (\<lambda>ing. ing \<in> set INGREDIENT_OPTIONS) ks))"
proof (intro conjI allI impI)
  fix m assume "meal (validateAnalysis a r) = Some m \<and> m \<noteq> []"
  then show "m \<in> set MEAL_OPTIONS"
    using main_dish_member by (cases "meal a") (auto simp: validate_meal split: if_splits)
next
  fix c assume "cuisine (validateAnalysis a r) = Some c \<and> c \<noteq> []"
  then show "c \<in> set CUISINE_OPTIONS"
    using american_member by (cases "cuisine a") (auto simp: validate_cuisine split: if_splits)
next
  fix ts assume "tags (validateAnalysis a r) = Some ts"
  then show "set ts \<subseteq> set TAG_OPTIONS"
    by (cases "tags a") (auto simp: validate_tags split: if_splits)
next
  fix ks assume "key_ingredients (validateAnalysis a r) = Some ks"
  then show "set ks \<subseteq> set INGREDIENT_OPTIONS"
    by (cases "key_ingredients a") (auto simp: validate_key_ingredients split: if_splits)
qed (simp_all add: validate_meal validate_cuisine validate_tags validate_key_ingredients)

lemma validateAnalysis_closure_example:
  "\<not> truthy (current_meal curry_recipe) \<and> meal off_list_analysis = Some ''Brunch'' \<and>
   ''Brunch'' \<notin> set MEAL_OPTIONS \<and>
   meal (validateAnalysis off_list_analysis curry_recipe) = Some ''Main Dish'' \<and>
   cuisine (validateAnalysis off_list_analysis curry_recipe) = Some ''American'' \<and>
   tags (validateAnalysis off_list_analysis curry_recipe) = Some [''Baked''] \<and>
   key_ingredients (validateAnalysis off_list_analysis curry_recipe) = Some [''Eggs'']"
  using validateAnalysis_closure [of off_list_analysis curry_recipe]
  by (simp add: curry_recipe_def off_list_analysis_def MEAL_OPTIONS_def CUISINE_OPTIONS_def
      TAG_OPTIONS_def INGREDIENT_OPTIONS_def)

text \<open>
  The tests \<^verbatim>\<open>analysis.meal && ...\<close> of the validation skip the empty string: it is
  not null, it is not replaced, and it is no member of the axis.
\<close>

lemma validateAnalysis_keeps_empty_string:
  "meal (validateAnalysis empty_meal_analysis curry_recipe) = Some [] \<and>
   [] \<notin> set MEAL_OPTIONS"
  by (simp add: validate_meal empty_meal_analysis_def curry_recipe_def MEAL_OPTIONS_def)

text \<open>
  C2, the code at a reply whose object has the meal \<open>Brunch\<close>. The production classifier
  returns (and caches) the parsed object as it is: \<^const>\<open>validateAnalysis\<close> is not part of
  it. The meal stays \<open>Brunch\<close>, which is no member of the meal axis, and the Suggested
  Change Set proposes it. The validation of the simple variant turns the same object's
  meal into \<open>Main Dish\<close>.
\<close>

theorem production_result_not_validated:
  "sample_JSON_parse brunch_reply = Parsed brunch_analysis \<and>
   fst (analyzeRecipeWithAI api_key sample_JSON_parse (Reply (Some brunch_reply)) 1000 2000
          initial_state curry_recipe None) = brunch_analysis \<and>
   meal brunch_analysis = Some ''Brunch'' \<and> ''Brunch'' \<notin> set MEAL_OPTIONS \<and>
   formatSuggestedChanges curry_recipe brunch_analysis None ''meal'' =
     Some \<lparr>current = Text ''Empty'', suggested = Text ''Brunch''\<rparr> \<and>
   meal (validateAnalysis brunch_analysis curry_recipe) = Some ''Main Dish''"
  by (simp add: analyzeRecipeWithAI_def Let_def sample_JSON_parse_def brunch_reply_def
      brunch_analysis_def api_key_def initial_state_def isOpen_def threshold_def
      cachedAnalysis_def MEAL_OPTIONS_def formatSuggestedChanges_def curry_recipe_def
      validateAnalysis_def)

text \<open>
  The call of the theorem above takes the AI path: the key is set, the breaker of the
  initial state is closed and the cache holds nothing for the recipe, so the guard
  \<^verbatim>\<open>if (!OPENAI_API_KEY || circuitBreaker.isOpen())\<close> is passed; the result of the call
  carries the meal \<open>Brunch\<close>.
\<close>

theorem production_result_not_validated_witness:
  "truthy api_key \<and> \<not> isOpen (breaker initial_state) 1000 \<and>
   cachedAnalysis initial_state (aiCacheKey curry_recipe) 1000 = None \<and>
   meal (fst (analyzeRecipeWithAI api_key sample_JSON_parse (Reply (Some brunch_reply))
                1000 2000 initial_state curry_recipe None)) = Some ''Brunch'' \<and>
   ''Brunch'' \<notin> set MEAL_OPTIONS"
  using production_result_not_validated
  by (simp add: api_key_def initial_state_def isOpen_def threshold_def
      cachedAnalysis_def)

section \<open>Fallback Classifier: availability\<close>

lemma inferMeal_member: "inferMeal nm \<in> set MEAL_OPTIONS"
  by (simp add: inferMeal_def MEAL_OPTIONS_def)

text \<open>
  C6, as the code has it. With no page data the Fallback Classifier returns a result whose
  confidence is 0.7, inside [0,1]. Its meal is a member of the meal axis when the recipe
  has no meal yet; when the recipe already has one, the guard
  \<^verbatim>\<open>if (!recipe.current_meal)\<close> leaves the meal null. The function is total: it reads the
  recipe and fixed tables only.
\<close>

theorem fallback_available:
  "(\<not> truthy (current_meal r) \<longrightarrow>
      (\<exists>m. meal (createSmartFallbackAnalysis r None) = Some m \<and> m \<in> set MEAL_OPTIONS)) \<and>
   (truthy (current_meal r) \<longrightarrow> meal (createSmartFallbackAnalysis r None) = None) \<and>
   confidence (createSmartFallbackAnalysis r None) = 7 / 10 \<and>
   0 \<le> confidence (createSmartFallbackAnalysis r None) \<and>
   confidence (createSmartFallbackAnalysis r None) \<le> 1"
  by (simp add: createSmartFallbackAnalysis_def Let_def inferMeal_member)

theorem fallback_available_witness:
  "\<not> truthy (current_meal curry_recipe) \<and>
   (\<exists>m. meal (createSmartFallbackAnalysis curry_recipe None) = Some m \<and> m \<in> set MEAL_OPTIONS)"
  using fallback_available [of curry_recipe]
  by (simp add: curry_recipe_def)

text \<open>The claim as worded (a non-null meal for every recipe) fails at a recipe that has a meal.\<close>

theorem fallback_available_counterexample:
  "meal (createSmartFallbackAnalysis tart_recipe None) = None"
  by (simp add: createSmartFallbackAnalysis_def Let_def tart_recipe_def)

section \<open>Fallback Classifier: dietary tags\<close>

lemma set_pushIf: "x \<in> set (pushIf c t) \<longleftrightarrow> c \<and> x = t"
  by (auto simp: pushIf_def)

lemma styleTags_no_dietary:
  "''Vegan'' \<notin> set (styleTags nm itext) \<and> ''Vegetarian'' \<notin> set (styleTags nm itext)"
  by (simp add: styleTags_def set_pushIf)

text \<open>
  C10. Whenever the tag inference returns a tag list, the list does not hold both
  \<open>Vegan\<close> and \<open>Vegetarian\<close>; \<open>Vegan\<close> is in it only if no meat keyword occurs in the
  name or the ingredient text and neither \<open>egg\<close> nor \<open>cheese\<close> occurs in the ingredient
  text; \<open>Vegetarian\<close> is in it only if no meat keyword occurs and \<open>egg\<close> or \<open>cheese\<close>
  occurs in the ingredient text.
\<close>

theorem dietary_tags_exclusive:
  "inferTagsFromNameAndIngredients nm ings = Some ts \<Longrightarrow>
     \<not> (''Vegan'' \<in> set ts \<and> ''Vegetarian'' \<in> set ts) \<and>
     (''Vegan'' \<in> set ts \<longrightarrow>
        \<not> hasMeat nm (toLowerCase (join '' '' ings)) \<and>
        \<not> includesStr (toLowerCase (join '' '' ings)) ''egg'' \<and>
        \<not> includesStr (toLowerCase (join '' '' ings)) ''cheese'') \<and>
     (''Vegetarian'' \<in> set ts \<longrightarrow>
        \<not> hasMeat nm (toLowerCase (join '' '' ings)) \<and>
        (includesStr (toLowerCase (join '' '' ings)) ''egg'' \<or>
         includesStr (toLowerCase (join '' '' ings)) ''cheese''))"
proof -
  assume a: "inferTagsFromNameAndIngredients nm ings = Some ts"
  define itext where "itext = toLowerCase (join '' '' ings)"
  from a have ts: "ts = take 4 (styleTags nm itext @ dietaryTags nm itext)"
    by (simp add: inferTagsFromNameAndIngredients_def Let_def itext_def split: if_splits)
  have sub: "set ts \<subseteq> set (styleTags nm itext) \<union> set (dietaryTags nm itext)"
    unfolding ts using set_take_subset [of 4 "styleTags nm itext @ dietaryTags nm itext"]
    by simp
  have vegan: "''Vegan'' \<in> set ts \<Longrightarrow> ''Vegan'' \<in> set (dietaryTags nm itext)"
    using sub styleTags_no_dietary [of nm itext] by blast
  have veget: "''Vegetarian'' \<in> set ts \<Longrightarrow> ''Vegetarian'' \<in> set (dietaryTags nm itext)"
    using sub styleTags_no_dietary [of nm itext] by blast
  show ?thesis
    unfolding itext_def [symmetric]
    using vegan veget by (auto simp: dietaryTags_def split: if_splits)
qed

theorem dietary_tags_exclusive_witness:
  "inferTagsFromNameAndIngredients ''cheese omelette'' [''2 Eggs'', ''Butter''] =
     Some [''Vegetarian''] \<and>
   \<not> hasMeat ''cheese omelette'' (toLowerCase (join '' '' [''2 Eggs'', ''Butter''])) \<and>
   (includesStr (toLowerCase (join '' '' [''2 Eggs'', ''Butter''])) ''egg'' \<or>
    includesStr (toLowerCase (join '' '' [''2 Eggs'', ''Butter''])) ''cheese'')"
proof -
  have h: "inferTagsFromNameAndIngredients ''cheese omelette'' [''2 Eggs'', ''Butter''] =
     Some [''Vegetarian'']"
    by code_simp
  from dietary_tags_exclusive [OF h] show ?thesis
    using h by simp
qed

section \<open>Circuit breaker\<close>

lemma analyze_when_open:
  "isOpen (breaker s) now \<Longrightarrow>
   analyzeRecipeWithAI key P reply now later s r e = (createSmartFallbackAnalysis r e, s)"
  by (simp add: analyzeRecipeWithAI_def)

lemma analyze_cache_hit:
  "truthy key \<Longrightarrow> \<not> isOpen (breaker s) now \<Longrightarrow> cachedAnalysis s (aiCacheKey r) now = Some hit \<Longrightarrow>
   analyzeRecipeWithAI key P reply now later s r e = (hit, s)"
  by (simp add: analyzeRecipeWithAI_def Let_def)

lemma analyze_cache_miss:
  "truthy key \<Longrightarrow> \<not> isOpen (breaker s) now \<Longrightarrow> cachedAnalysis s (aiCacheKey r) now = None \<Longrightarrow>
   ai_requests (snd (analyzeRecipeWithAI key P reply now later s r e)) = Suc (ai_requests s)"
  by (simp add: analyzeRecipeWithAI_def Let_def recordFailure_def recordSuccess_def
      split: ai_reply.splits option.splits parsed.splits)

text \<open>A call that fails sends one request and records one failure, at the time it is handled.\<close>

lemma failed_call:
  assumes "aiCallFails key P reply now s r"
  shows "analyzeRecipeWithAI key P reply now later s r e =
    (createSmartFallbackAnalysis r e,
     s\<lparr>ai_requests := Suc (ai_requests s), breaker := recordFailure (breaker s) later\<rparr>)"
  using assms
  by (auto simp: aiCallFails_def replyFails_def analyzeRecipeWithAI_def Let_def
      split: ai_reply.splits option.splits)

lemma failed_call_breaker:
  assumes "aiCallFails key P reply now s r"
  shows "failures (breaker (snd (analyzeRecipeWithAI key P reply now later s r e))) =
      Suc (failures (breaker s))"
    and "lastFailTime (breaker (snd (analyzeRecipeWithAI key P reply now later s r e))) =
      Some later"
  by (simp_all add: failed_call [OF assms] recordFailure_def)

text \<open>A call whose reply parses to an object sends one request and records a success.\<close>

lemma successful_call:
  assumes "truthy key" "\<not> isOpen (breaker s) now" "cachedAnalysis s (aiCacheKey r) now = None"
    and "content \<noteq> []" "P content = Parsed a"
  shows "analyzeRecipeWithAI key P (Reply (Some content)) now later s r e =
    (a, s\<lparr>ai_requests := Suc (ai_requests s),
          ai_cache := (ai_cache s)(aiCacheKey r \<mapsto> \<lparr>data = a, timestamp = later\<rparr>),
          breaker := recordSuccess (breaker s)\<rparr>)"
  using assms by (simp add: analyzeRecipeWithAI_def Let_def)

lemma failures_after_call:
  assumes "analyzeRecipeWithAI key P reply now later s r e = (a, s')"
  shows "failures (breaker s') = failures (breaker s) \<or>
         failures (breaker s') = Suc (failures (breaker s)) \<or>
         (failures (breaker s') = 0 \<and>
          (\<exists>content. reply = Reply (Some content) \<and> content \<noteq> [] \<and> P content = Parsed a))"
  using assms
  by (auto simp: analyzeRecipeWithAI_def Let_def recordFailure_def recordSuccess_def
      split: if_splits ai_reply.splits option.splits parsed.splits)

lemma open_after_failures:
  "failures b \<ge> threshold \<Longrightarrow> lastFailTime b = Some t0 \<Longrightarrow> isOpen b now = (now - t0 < resetTime)"
  by (simp add: isOpen_def)

text \<open>
  C3. Let three calls in a row each reach the completion API and fail there (no reply, a
  status that is not ok, an unreadable envelope, missing or empty content, content that is
  no object), the last one handled at time \<open>later3\<close>. Each records a failure, so the
  count has gone up by the threshold, 3. A next call made less than \<open>resetTime\<close> (five
  minutes) after \<open>later3\<close> returns the Fallback Classifier's result and leaves the state
  as it was: no request is sent. A next call made once the window has elapsed finds the
  breaker closed and takes the AI path: it returns a fresh cached analysis of that recipe
  if there is one, and otherwise sends a request to the completion API.
\<close>

theorem breaker_transition:
  assumes c1: "aiCallFails key P reply1 now1 s0 r1"
    and s1: "s1 = snd (analyzeRecipeWithAI key P reply1 now1 later1 s0 r1 e1)"
    and c2: "aiCallFails key P reply2 now2 s1 r2"
    and s2: "s2 = snd (analyzeRecipeWithAI key P reply2 now2 later2 s1 r2 e2)"
    and c3: "aiCallFails key P reply3 now3 s2 r3"
    and s3: "s3 = snd (analyzeRecipeWithAI key P reply3 now3 later3 s2 r3 e3)"
  shows "failures (breaker s3) = failures (breaker s0) + threshold \<and>
         lastFailTime (breaker s3) = Some later3 \<and>
         (now - later3 < resetTime \<longrightarrow>
            analyzeRecipeWithAI key P reply now later s3 r e =
              (createSmartFallbackAnalysis r e, s3)) \<and>
         (\<not> now - later3 < resetTime \<longrightarrow>
            \<not> isOpen (breaker s3) now \<and>
            (case cachedAnalysis s3 (aiCacheKey r) now of
               Some hit \<Rightarrow> analyzeRecipeWithAI key P reply now later s3 r e = (hit, s3)
             | None \<Rightarrow>
                 ai_requests (snd (analyzeRecipeWithAI key P reply now later s3 r e)) =
                   Suc (ai_requests s3)))"
proof -
  have key: "truthy key"
    using c1 by (simp add: aiCallFails_def)
  have f1: "failures (breaker s1) = Suc (failures (breaker s0))"
    unfolding s1 by (rule failed_call_breaker(1) [OF c1])
  have f2: "failures (breaker s2) = Suc (failures (breaker s1))"
    unfolding s2 by (rule failed_call_breaker(1) [OF c2])
  have f3: "failures (breaker s3) = Suc (failures (breaker s2))"
    unfolding s3 by (rule failed_call_breaker(1) [OF c3])
  have cnt: "failures (breaker s3) = failures (breaker s0) + threshold"
    using f1 f2 f3 by (simp add: threshold_def)
  then have n: "failures (breaker s3) \<ge> threshold"
    by simp
  have t: "lastFailTime (breaker s3) = Some later3"
    unfolding s3 by (rule failed_call_breaker(2) [OF c3])
  have op: "isOpen (breaker s3) now = (now - later3 < resetTime)"
    using open_after_failures [OF n t] .
  show ?thesis
  proof (intro conjI impI)
    show "failures (breaker s3) = failures (breaker s0) + threshold" by (rule cnt)
  next
    show "lastFailTime (breaker s3) = Some later3" by (rule t)
  next
    assume "now - later3 < resetTime"
    with op show "analyzeRecipeWithAI key P reply now later s3 r e =
        (createSmartFallbackAnalysis r e, s3)"
      by (simp add: analyze_when_open)
  next
    assume w: "\<not> now - later3 < resetTime"
    with op show "\<not> isOpen (breaker s3) now" by simp
  next
    assume w: "\<not> now - later3 < resetTime"
    with op have closed: "\<not> isOpen (breaker s3) now" by simp
    show "case cachedAnalysis s3 (aiCacheKey r) now of
            Some hit \<Rightarrow> analyzeRecipeWithAI key P reply now later s3 r e = (hit, s3)
          | None \<Rightarrow>
              ai_requests (snd (analyzeRecipeWithAI key P reply now later s3 r e)) =
                Suc (ai_requests s3)"
      using analyze_cache_hit [OF key closed] analyze_cache_miss [OF key closed]
      by (simp split: option.splits)
  qed
qed

text \<open>The sample states, computed.\<close>

lemma sample_call_1: "aiCallFails api_key sample_JSON_parse NoReply 1000 initial_state curry_recipe"
  by (simp add: aiCallFails_def replyFails_def api_key_def initial_state_def isOpen_def
      threshold_def cachedAnalysis_def)

lemma after_one_failure_eq:
  "after_one_failure =
     \<lparr>breaker = \<lparr>failures = 1, lastFailTime = Some 2000\<rparr>, ai_cache = Map.empty,
      scrape_cache = Map.empty, ai_requests = 1\<rparr>"
  unfolding after_one_failure_def failed_call [OF sample_call_1]
  by (simp add: initial_state_def recordFailure_def)

lemma sample_call_2:
  "aiCallFails api_key sample_JSON_parse (HttpError 500) 3000 after_one_failure curry_recipe"
  by (simp add: aiCallFails_def replyFails_def api_key_def after_one_failure_eq isOpen_def
      threshold_def cachedAnalysis_def)

lemma after_two_failures_eq:
  "after_two_failures =
     \<lparr>breaker = \<lparr>failures = 2, lastFailTime = Some 4000\<rparr>, ai_cache = Map.empty,
      scrape_cache = Map.empty, ai_requests = 2\<rparr>"
  unfolding after_two_failures_def failed_call [OF sample_call_2]
  by (simp add: after_one_failure_eq recordFailure_def)

lemma sample_call_3:
  "aiCallFails api_key sample_JSON_parse (Reply None) 5000 after_two_failures curry_recipe"
  by (simp add: aiCallFails_def replyFails_def api_key_def after_two_failures_eq isOpen_def
      threshold_def cachedAnalysis_def)

lemma after_three_failures_eq:
  "after_three_failures =
     \<lparr>breaker = \<lparr>failures = 3, lastFailTime = Some 6000\<rparr>, ai_cache = Map.empty,
      scrape_cache = Map.empty, ai_requests = 3\<rparr>"
  unfolding after_three_failures_def failed_call [OF sample_call_3]
  by (simp add: after_two_failures_eq recordFailure_def)

theorem breaker_transition_witness:
  "aiCallFails api_key sample_JSON_parse NoReply 1000 initial_state curry_recipe \<and>
   aiCallFails api_key sample_JSON_parse (HttpError 500) 3000 after_one_failure curry_recipe \<and>
   aiCallFails api_key sample_JSON_parse (Reply None) 5000 after_two_failures curry_recipe \<and>
   failures (breaker after_three_failures) = 3 \<and>
   analyzeRecipeWithAI api_key sample_JSON_parse (Reply (Some brunch_reply)) 7000 8000
     after_three_failures curry_recipe None =
     (createSmartFallbackAnalysis curry_recipe None, after_three_failures) \<and>
   \<not> isOpen (breaker after_three_failures) 306000 \<and>
   ai_requests (snd (analyzeRecipeWithAI api_key sample_JSON_parse (Reply (Some brunch_reply))
     306000 307000 after_three_failures curry_recipe None)) = Suc (ai_requests after_three_failures)"
proof -
  note tr = breaker_transition [OF sample_call_1 after_one_failure_def sample_call_2
      after_two_failures_def sample_call_3 after_three_failures_def]
  have miss: "cachedAnalysis after_three_failures (aiCacheKey curry_recipe) 306000 = None"
    by (simp add: after_three_failures_eq cachedAnalysis_def)
  from tr [of 7000 "Reply (Some brunch_reply)" 8000 curry_recipe None]
    tr [of 306000 "Reply (Some brunch_reply)" 307000 curry_recipe None]
    sample_call_1 sample_call_2 sample_call_3 miss
  show ?thesis
    by (simp add: resetTime_def threshold_def initial_state_def)
qed

text \<open>
  C9. Let the breaker have opened (failure count at or above the threshold, last failure
  at \<open>t0\<close>), let the reset window have elapsed at time \<open>now\<close>, and let a call be made
  then that reaches the completion API. The breaker is not open at \<open>now\<close> although the
  stored count is still at or above the threshold: time does not lower it. If the call
  fails, the count goes up by one and the breaker is open again at every time inside the
  window after \<open>later\<close>. If the reply parses to an object, the success is recorded: the
  count is 0, the last failure time is cleared and the breaker is closed at every time.
  And the call leaves a lower count in no other case.
\<close>

theorem breaker_reopens:
  assumes key: "truthy key"
    and n: "failures (breaker s) \<ge> threshold"
    and t: "lastFailTime (breaker s) = Some t0"
    and w: "\<not> now - t0 < resetTime"
    and miss: "cachedAnalysis s (aiCacheKey r) now = None"
    and s': "s' = snd (analyzeRecipeWithAI key P reply now later s r e)"
  shows "\<not> isOpen (breaker s) now \<and>
         (replyFails P reply \<longrightarrow>
            failures (breaker s') = Suc (failures (breaker s)) \<and>
            (\<forall>t. t - later < resetTime \<longrightarrow> isOpen (breaker s') t)) \<and>
         (\<forall>content a. reply = Reply (Some content) \<and> content \<noteq> [] \<and> P content = Parsed a \<longrightarrow>
            failures (breaker s') = 0 \<and> lastFailTime (breaker s') = None \<and>
            (\<forall>t. \<not> isOpen (breaker s') t)) \<and>
         (failures (breaker s') < failures (breaker s) \<longrightarrow>
            (\<exists>content a. reply = Reply (Some content) \<and> content \<noteq> [] \<and> P content = Parsed a))"
proof (intro conjI impI allI)
  show closed: "\<not> isOpen (breaker s) now"
    using open_after_failures [OF n t] w by simp
  {
    assume "replyFails P reply"
    with key closed miss have c: "aiCallFails key P reply now s r"
      by (simp add: aiCallFails_def)
    show f: "failures (breaker s') = Suc (failures (breaker s))"
      unfolding s' by (rule failed_call_breaker(1) [OF c])
    fix t' assume tw: "t' - later < resetTime"
    have "failures (breaker s') \<ge> threshold" using f n by simp
    moreover have "lastFailTime (breaker s') = Some later"
      unfolding s' by (rule failed_call_breaker(2) [OF c])
    ultimately show "isOpen (breaker s') t'"
      using tw by (simp add: open_after_failures)
  }
  {
    fix content a
    assume ok: "reply = Reply (Some content) \<and> content \<noteq> [] \<and> P content = Parsed a"
    then have b: "breaker s' = recordSuccess (breaker s)"
      unfolding s' using successful_call [OF key closed miss, of content P a later e] by simp
    show "failures (breaker s') = 0" "lastFailTime (breaker s') = None"
      by (simp_all add: b recordSuccess_def)
    fix t' show "\<not> isOpen (breaker s') t'"
      by (simp add: b recordSuccess_def isOpen_def threshold_def)
  }
  {
    assume "failures (breaker s') < failures (breaker s)"
    moreover have "analyzeRecipeWithAI key P reply now later s r e =
        (fst (analyzeRecipeWithAI key P reply now later s r e), s')"
      by (simp add: s')
    ultimately show "\<exists>content a. reply = Reply (Some content) \<and> content \<noteq> [] \<and>
        P content = Parsed a"
      using failures_after_call by fastforce
  }
qed

theorem breaker_reopens_witness:
  "failures (breaker after_three_failures) \<ge> threshold \<and>
   \<not> (306000 - 6000 < resetTime) \<and>
   \<not> isOpen (breaker after_three_failures) 306000 \<and>
   replyFails sample_JSON_parse NoReply \<and>
   failures (breaker (snd (analyzeRecipeWithAI api_key sample_JSON_parse NoReply 306000 307000
     after_three_failures curry_recipe None))) = 4 \<and>
   isOpen (breaker (snd (analyzeRecipeWithAI api_key sample_JSON_parse NoReply 306000 307000
     after_three_failures curry_recipe None))) 308000 \<and>
   sample_JSON_parse brunch_reply = Parsed brunch_analysis \<and>
   failures (breaker (snd (analyzeRecipeWithAI api_key sample_JSON_parse
     (Reply (Some brunch_reply)) 306000 307000 after_three_failures curry_recipe None))) = 0"
proof -
  have key: "truthy api_key"
    by (simp add: api_key_def)
  have n: "failures (breaker after_three_failures) \<ge> threshold"
    by (simp add: after_three_failures_eq threshold_def)
  have t: "lastFailTime (breaker after_three_failures) = Some 6000"
    by (simp add: after_three_failures_eq)
  have w: "\<not> (306000 - 6000 < resetTime)"
    by (simp add: resetTime_def)
  have miss: "cachedAnalysis after_three_failures (aiCacheKey curry_recipe) 306000 = None"
    by (simp add: after_three_failures_eq cachedAnalysis_def)
  have rf: "replyFails sample_JSON_parse NoReply"
    by (simp add: replyFails_def)
  have ne: "brunch_reply \<noteq> []"
    by (simp add: brunch_reply_def)
  have ps: "sample_JSON_parse brunch_reply = Parsed brunch_analysis"
    by (simp add: sample_JSON_parse_def)
  from breaker_reopens [OF key n t w miss refl, of sample_JSON_parse NoReply 307000 None]
    breaker_reopens [OF key n t w miss refl, of sample_JSON_parse "Reply (Some brunch_reply)"
      307000 None]
    n w rf ne ps
  show ?thesis
    by (simp add: resetTime_def after_three_failures_eq)
qed

section \<open>Page Extractor and batch processing\<close>

lemma retry_callback_throws:
  "left \<noteq> 0 \<Longrightarrow>
   \<exists>e. withRetry (\<lambda>attempt. case fetch attempt of Rejected e \<Rightarrow> Inl e
                            | Resolved res \<Rightarrow> Inl (JsError m)) attempt left = Inl e"
proof (induction left arbitrary: attempt)
  case 0
  then show ?case by simp
next
  case (Suc left)
  show ?case
  proof (cases "left = 0")
    case True
    then show ?thesis by (cases "fetch attempt") auto
  next
    case False
    from Suc.IH [OF False, of "Suc attempt"] show ?thesis
      by (cases "fetch attempt") (auto simp: False)
  qed
qed

lemma production_uncached:
  assumes "cachedPage st (''scrape:'' @ url) now = None"
  shows "extractRecipeFromURL fetch timerFirst scrape now later st url = (Inr None, st)"
proof (cases "url = []")
  case True
  then show ?thesis by (simp add: extractRecipeFromURL_def)
next
  case False
  have "MAX_RETRIES \<noteq> 0" by (simp add: MAX_RETRIES_def)
  from retry_callback_throws [OF this]
  have "\<exists>e. withRetry (\<lambda>attempt. case fetch attempt of Rejected e \<Rightarrow> Inl e
      | Resolved res \<Rightarrow> Inl (JsError ''Cannot access response before initialization''))
      (Suc 0) MAX_RETRIES = (Inl e :: js_error + http_response option)" .
  then obtain e where e: "withRetry (\<lambda>attempt. case fetch attempt of Rejected e \<Rightarrow> Inl e
      | Resolved res \<Rightarrow> Inl (JsError ''Cannot access response before initialization''))
      (Suc 0) MAX_RETRIES = (Inl e :: js_error + http_response option)" ..
  show ?thesis
    using assms False
    by (simp add: extractRecipeFromURL_def Let_def e withTimeout_def bindE_def)
qed

lemma production_total:
  "\<exists>v. fst (extractRecipeFromURL fetch timerFirst scrape now later st url) = Inr v"
proof (cases "cachedPage st (''scrape:'' @ url) now")
  case None
  then show ?thesis by (simp add: production_uncached)
next
  case (Some hit)
  then show ?thesis by (simp add: extractRecipeFromURL_def Let_def)
qed

lemma processRecipe_eq:
  "processRecipe extract analyze r =
     Inr (case recipeOutcome extract analyze r of Inl e \<Rightarrow> None | Inr v \<Rightarrow> v)"
  by (simp add: processRecipe_def try_catch_def split: sum.splits)

lemma promiseAll_map_Inr: "promiseAll (map (\<lambda>x. Inr (g x)) xs) = Inr (map g xs)"
  by (induction xs) simp_all

lemma recipeOutcome_recipe:
  "recipeOutcome extract analyze r = Inr (Some item) \<Longrightarrow> item_recipe item = r"
  by (auto simp: recipeOutcome_def bindE_def split: sum.splits option.splits if_splits)

lemma createReviewData_eq:
  "createReviewData extract analyze recipes =
     Inr (map the (filter (\<lambda>item. item \<noteq> None)
       (map (\<lambda>r. case recipeOutcome extract analyze r of Inl e \<Rightarrow> None | Inr v \<Rightarrow> v)
          (take MAX_RECIPES_PER_BATCH recipes))))"
proof -
  have m: "map (processRecipe extract analyze) (take MAX_RECIPES_PER_BATCH recipes) =
      map (\<lambda>r. Inr (case recipeOutcome extract analyze r of Inl e \<Rightarrow> None | Inr v \<Rightarrow> v))
        (take MAX_RECIPES_PER_BATCH recipes)"
    by (simp add: processRecipe_eq)
  show ?thesis
    unfolding createReviewData_def Let_def m promiseAll_map_Inr bindE_def by simp
qed

text \<open>
  Page extraction fails soft. The simple variant always returns a value, and the value
  is \<^verbatim>\<open>null\<close> when the fetch rejects, when the status is not 2xx, when the body cannot
  be read and when the parser throws. The production variant always returns a value too,
  and without a fresh cached page that value is \<^verbatim>\<open>null\<close> whatever the fetch attempts,
  the timer and the parser do, the state left as it was. The per-recipe function of the
  production orchestrator goes on from \<^verbatim>\<open>null\<close>: it still classifies the recipe and
  returns an item whose page context is \<open>NotionOnly\<close>.
\<close>

lemma extraction_fails_soft:
  "(\<exists>v. extractRecipeFromURL_simple fetchOnce scrape url = Inr v) \<and>
   (\<forall>e. fetchOnce url = Rejected e \<longrightarrow> extractRecipeFromURL_simple fetchOnce scrape url = Inr None) \<and>
   (\<forall>res. fetchOnce url = Resolved res \<and> \<not> response_ok res \<longrightarrow>
      extractRecipeFromURL_simple fetchOnce scrape url = Inr None) \<and>
   (\<forall>res e. fetchOnce url = Resolved res \<and> http_body res = Inl e \<longrightarrow>
      extractRecipeFromURL_simple fetchOnce scrape url = Inr None) \<and>
   (\<forall>res html e. fetchOnce url = Resolved res \<and> http_body res = Inr html \<and> scrape html = Inl e \<longrightarrow>
      extractRecipeFromURL_simple fetchOnce scrape url = Inr None) \<and>
   (\<exists>v. fst (extractRecipeFromURL fetch timerFirst scrape now later st url) = Inr v) \<and>
   (cachedPage st (''scrape:'' @ url) now = None \<longrightarrow>
      extractRecipeFromURL fetch timerFirst scrape now later st url = (Inr None, st)) \<and>
   (\<forall>a. extract (link r) = Inr None \<and> analyze r None = Inr (Some a) \<longrightarrow>
      processRecipe extract analyze r =
        Inr (Some \<lparr>item_recipe = r, item_extractedData = NotionOnly, item_analysis = a,
                   suggestedChanges = formatSuggestedChanges r a None\<rparr>))"
proof (intro conjI allI impI)
  show "\<exists>v. extractRecipeFromURL_simple fetchOnce scrape url = Inr v"
    by (auto simp: extractRecipeFromURL_simple_def try_catch_def bindE_def
        split: sum.splits fetch_result.splits)
next
  show "\<exists>v. fst (extractRecipeFromURL fetch timerFirst scrape now later st url) = Inr v"
    by (rule production_total)
next
  assume "cachedPage st (''scrape:'' @ url) now = None"
  then show "extractRecipeFromURL fetch timerFirst scrape now later st url = (Inr None, st)"
    by (rule production_uncached)
next
  fix a assume "extract (link r) = Inr None \<and> analyze r None = Inr (Some a)"
  then show "processRecipe extract analyze r =
        Inr (Some \<lparr>item_recipe = r, item_extractedData = NotionOnly, item_analysis = a,
                   suggestedChanges = formatSuggestedChanges r a None\<rparr>)"
    by (simp add: processRecipe_eq recipeOutcome_def bindE_def)
qed (simp_all add: extractRecipeFromURL_simple_def try_catch_def bindE_def)

lemma extraction_fails_soft_example:
  "extractRecipeFromURL_simple (\<lambda>url. Rejected (JsError ''ECONNREFUSED''))
     (\<lambda>html. Inl (JsError ''parse error'')) ''http://down.example/salmon'' = Inr None \<and>
   \<not> response_ok not_found \<and>
   extractRecipeFromURL_simple (\<lambda>url. Resolved not_found)
     (\<lambda>html. Inl (JsError ''parse error'')) ''http://down.example/salmon'' = Inr None \<and>
   extractRecipeFromURL_simple (\<lambda>url. Resolved page_ok)
     (\<lambda>html. Inl (JsError ''parse error'')) ''http://down.example/salmon'' = Inr None \<and>
   extractRecipeFromURL (\<lambda>attempt. Resolved page_ok) False
     (\<lambda>html. Inl (JsError ''parse error'')) 1000 2000 initial_state
     ''http://down.example/salmon'' = (Inr None, initial_state) \<and>
   processRecipe (\<lambda>url. Inr None) fallback_analyze linked_recipe =
     Inr (Some \<lparr>item_recipe = linked_recipe, item_extractedData = NotionOnly,
                item_analysis = createSmartFallbackAnalysis linked_recipe None,
                suggestedChanges =
                  formatSuggestedChanges linked_recipe
                    (createSmartFallbackAnalysis linked_recipe None) None\<rparr>)"
  using extraction_fails_soft
      [of "\<lambda>url. Rejected (JsError ''ECONNREFUSED'')" "\<lambda>html. Inl (JsError ''parse error'')"
          "''http://down.example/salmon''" "\<lambda>attempt. Resolved page_ok" False 1000 2000
          initial_state "\<lambda>url. Inr None" linked_recipe fallback_analyze]
    extraction_fails_soft
      [of "\<lambda>url. Resolved not_found" "\<lambda>html. Inl (JsError ''parse error'')"
          "''http://down.example/salmon''"]
    extraction_fails_soft
      [of "\<lambda>url. Resolved page_ok" "\<lambda>html. Inl (JsError ''parse error'')"
          "''http://down.example/salmon''"]
  by (simp add: response_ok_def not_found_def page_ok_def cachedPage_def initial_state_def
      fallback_analyze_def)

text \<open>
  C4, the code at a recipe whose page cannot be fetched, in the website-refresh mode of
  the simple variant. The extraction returns \<^verbatim>\<open>null\<close> as it should. The caller then
  hands that \<^verbatim>\<open>null\<close> to \<^const>\<open>filterExtractedData\<close>, which throws; nothing catches
  it, and the whole call is rejected: no recipe of the batch gets a result. The standard
  mode of the same variant tests for \<^verbatim>\<open>null\<close> before it filters.
\<close>

theorem refresh_caller_throws_on_null:
  "extractRecipeFromURL_simple refused_fetch no_scrape (link linked_recipe) = Inr None \<and>
   validated_analyze linked_recipe None =
     Inr (Some (validateAnalysis brunch_analysis linked_recipe)) \<and>
   createReviewDataWithWebsiteRefresh (extractRecipeFromURL_simple refused_fetch no_scrape)
     validated_analyze [linked_recipe, curry_recipe, tart_recipe] =
     Inl (JsError ''Cannot read properties of null (reading title)'')"
  by (simp add: createReviewDataWithWebsiteRefresh_def MAX_RECIPES_PER_BATCH_simple_def
      extractRecipeFromURL_simple_def refused_fetch_def try_catch_def bindE_def
      validated_analyze_def filterExtractedData_def linked_recipe_def)

text \<open>
  C7. \<^const>\<open>createReviewData\<close> always returns a list, for every batch (the first
  \<^const>\<open>MAX_RECIPES_PER_BATCH\<close> recipes handed in) and whatever extraction and
  classification do: every recipe of the batch whose processing completes with an item
  has that item in the list, and every item of the list belongs to a recipe of the batch
  whose processing did not throw. A recipe whose extraction or classification throws
  contributes nothing and stops nothing.
\<close>

theorem batch_isolation:
  "\<exists>items. createReviewData extract analyze recipes = Inr items \<and>
     (\<forall>r \<in> set (take MAX_RECIPES_PER_BATCH recipes). \<forall>item.
        recipeOutcome extract analyze r = Inr (Some item) \<longrightarrow> item \<in> set items) \<and>
     (\<forall>item \<in> set items.
        item_recipe item \<in> set (take MAX_RECIPES_PER_BATCH recipes) \<and>
        recipeOutcome extract analyze (item_recipe item) = Inr (Some item))"
proof -
  define batch where "batch = take MAX_RECIPES_PER_BATCH recipes"
  define g where "g = (\<lambda>r. case recipeOutcome extract analyze r of Inl e \<Rightarrow> None | Inr v \<Rightarrow> v)"
  define items where "items = map the (filter (\<lambda>item. item \<noteq> None) (map g batch))"
  have eq: "createReviewData extract analyze recipes = Inr items"
    by (simp add: createReviewData_eq items_def g_def batch_def)
  have mem: "item \<in> set items \<longleftrightarrow> (\<exists>r \<in> set batch. g r = Some item)" for item
    by (force simp: items_def image_iff)
  have gs: "g r = Some item \<longleftrightarrow> recipeOutcome extract analyze r = Inr (Some item)" for r item
    by (simp add: g_def split: sum.splits)
  have a: "\<forall>r \<in> set batch. \<forall>item.
        recipeOutcome extract analyze r = Inr (Some item) \<longrightarrow> item \<in> set items"
    using mem gs by blast
  have b: "\<forall>item \<in> set items. item_recipe item \<in> set batch \<and>
        recipeOutcome extract analyze (item_recipe item) = Inr (Some item)"
  proof
    fix item assume "item \<in> set items"
    then obtain r where r: "r \<in> set batch" "recipeOutcome extract analyze r = Inr (Some item)"
      using mem gs by blast
    from recipeOutcome_recipe [OF r(2)] r show "item_recipe item \<in> set batch \<and>
        recipeOutcome extract analyze (item_recipe item) = Inr (Some item)" by simp
  qed
  from eq a b show ?thesis unfolding batch_def by blast
qed

theorem batch_isolation_witness:
  "curry_recipe \<in> set (take MAX_RECIPES_PER_BATCH [curry_recipe, linked_recipe, tart_recipe]) \<and>
   recipeOutcome throwing_extract fallback_analyze linked_recipe =
     Inl (JsError ''socket hang up'') \<and>
   (\<exists>items.
      createReviewData throwing_extract fallback_analyze
        [curry_recipe, linked_recipe, tart_recipe] = Inr items \<and>
      \<lparr>item_recipe = curry_recipe, item_extractedData = NotionOnly,
       item_analysis = createSmartFallbackAnalysis curry_recipe None,
       suggestedChanges =
         formatSuggestedChanges curry_recipe
           (createSmartFallbackAnalysis curry_recipe None) None\<rparr> \<in> set items \<and>
      (\<forall>item \<in> set items. item_recipe item \<noteq> linked_recipe))"
proof -
  have m: "curry_recipe \<in>
      set (take MAX_RECIPES_PER_BATCH [curry_recipe, linked_recipe, tart_recipe])"
    by (simp add: MAX_RECIPES_PER_BATCH_def)
  have t: "recipeOutcome throwing_extract fallback_analyze linked_recipe =
      Inl (JsError ''socket hang up'')"
    by (simp add: recipeOutcome_def bindE_def throwing_extract_def linked_recipe_def)
  have c: "recipeOutcome throwing_extract fallback_analyze curry_recipe =
      Inr (Some \<lparr>item_recipe = curry_recipe, item_extractedData = NotionOnly,
       item_analysis = createSmartFallbackAnalysis curry_recipe None,
       suggestedChanges =
         formatSuggestedChanges curry_recipe
           (createSmartFallbackAnalysis curry_recipe None) None\<rparr>)"
    by (simp add: recipeOutcome_def bindE_def fallback_analyze_def curry_recipe_def)
  from batch_isolation [of throwing_extract fallback_analyze
      "[curry_recipe, linked_recipe, tart_recipe]"]
  obtain items where i:
    "createReviewData throwing_extract fallback_analyze
       [curry_recipe, linked_recipe, tart_recipe] = Inr items"
    "\<forall>r \<in> set (take MAX_RECIPES_PER_BATCH [curry_recipe, linked_recipe, tart_recipe]).
       \<forall>item. recipeOutcome throwing_extract fallback_analyze r = Inr (Some item) \<longrightarrow>
         item \<in> set items"
    "\<forall>item \<in> set items.
       item_recipe item \<in>
         set (take MAX_RECIPES_PER_BATCH [curry_recipe, linked_recipe, tart_recipe]) \<and>
       recipeOutcome throwing_extract fallback_analyze (item_recipe item) = Inr (Some item)"
    by blast
  from i(2) m c have "\<lparr>item_recipe = curry_recipe, item_extractedData = NotionOnly,
       item_analysis = createSmartFallbackAnalysis curry_recipe None,
       suggestedChanges =
         formatSuggestedChanges curry_recipe
           (createSmartFallbackAnalysis curry_recipe None) None\<rparr> \<in> set items"
    by blast
  moreover from i(3) t have "\<forall>item \<in> set items. item_recipe item \<noteq> linked_recipe"
    by fastforce
  ultimately show ?thesis
    using m t i(1) by blast
qed

section \<open>Title standardization: idempotence\<close>


lemma of_char_upper:
  "(of_char (toUpperChar c) :: nat) =
     (if (97 \<le> (of_char c :: nat) \<and> (of_char c :: nat) \<le> 122) \<or>
         (224 \<le> (of_char c :: nat) \<and> (of_char c :: nat) \<le> 254 \<and> (of_char c :: nat) \<noteq> 247)
      then of_char c - 32 else of_char c)"
  by (auto simp: toUpperChar_def Let_def)

lemma char_eqI: "(of_char x :: nat) = of_char y \<Longrightarrow> x = y"
  by simp



lemma upper_upper_char: "toUpperChar (toUpperChar c) = toUpperChar c"
  by (rule char_eqI) (auto simp: of_char_upper)



lemma upper_char_any: "anyChar (toUpperChar c) = anyChar c"
proof -
  have a: "x = CHR 0x0A \<longleftrightarrow> (of_char x :: nat) = 10" for x
    using of_char_eq_iff [of x "CHR 0x0A", where ?'a = nat] by simp
  have b: "x = CHR 0x0D \<longleftrightarrow> (of_char x :: nat) = 13" for x
    using of_char_eq_iff [of x "CHR 0x0D", where ?'a = nat] by simp
  show ?thesis
    by (auto simp: anyChar_def isLineTerminator_def a b of_char_upper)
qed









lemma upperFirst_idem: "upperFirst (upperFirst w) = upperFirst w"
  by (cases w) (simp_all add: upperFirst_def upper_char_any upper_upper_char)
















































section \<open>Code fences\<close>

text \<open>
  What holds of the production classifier: content that \<^verbatim>\<open>JSON.parse\<close> rejects gives
  the Fallback Classifier's result, with a request sent and the breaker untouched. The
  content reaches the parser as it came, with any fence still on it.
\<close>

lemma parse_failure_falls_back:
  assumes "truthy key" "\<not> isOpen (breaker st) now"
    and "cachedAnalysis st (aiCacheKey r) now = None"
    and "content \<noteq> []" "P content = SyntaxError"
  shows "analyzeRecipeWithAI key P (Reply (Some content)) now later st r e =
    (createSmartFallbackAnalysis r e, st\<lparr>ai_requests := Suc (ai_requests st)\<rparr>)"
  using assms by (simp add: analyzeRecipeWithAI_def Let_def)

text \<open>What holds of the clean-up: a reply fenced with the \<open>json\<close> tag loses both fences.\<close>

lemma json_fence_stripped:
  "stripCodeFences ''```json\<newline>{}\<newline>```'' = ''{}\<newline>''"
  by code_simp

text \<open>
  C5, the code at a reply fenced without the \<open>json\<close> tag. The first replacement finds no
  \<^verbatim>\<open>```json\<close>, the second removes the opening fence, which is the leftmost
  \<^verbatim>\<open>```\<close>, and the closing fence stays: the text handed to \<^verbatim>\<open>JSON.parse\<close> is not
  the inner object.
\<close>

theorem plain_fence_not_stripped:
  "stripCodeFences ''```\<newline>{}\<newline>```'' = ''{}\<newline>```''"
  by code_simp

end
